theory Spec2Isabelle
  imports Main "HOL-Library.Word" "HOL-Library.AList"
begin

section \<open>Data model of the channel package\<close>

text \<open>
  Basic types. \<open>Index\<close> is Go's \<open>uint16\<close>, a version is a \<open>uint64\<close>; both wrap
  around. Addresses, assets, application data and signatures are byte strings.
  A Go value of type \<open>wallet.Sig\<close> may be \<open>nil\<close>: a signature slot is a
  \<open>sig option\<close>, \<open>None\<close> standing for \<open>nil\<close>.
  An app is represented by the address \<open>Def\<close> returns; parameters and states
  always carry an app. \<open>Params\<close> keeps its channel ID in the field \<open>id\<close>.
\<close>

type_synonym byte = "8 word"
type_synonym Index = "16 word"
type_synonym ID = "256 word"
type_synonym Address = "byte list"
type_synonym sig = "byte list"
type_synonym Bal = int

datatype Phase = InitActing | InitSigning | Funding | Acting | Signing | Final | Settled

datatype PhaseTransition = PhaseTransition (From: Phase) (To: Phase)

record Account =
  address :: Address
  secret :: "byte list"

record App =
  Def :: Address

record SubAlloc =
  SubID :: ID
  Bals :: "Bal list"

record Allocation =
  Assets :: "byte list list"
  OfParts :: "Bal list list"
  Locked :: "SubAlloc list"

record Params =
  id :: ID
  ChallengeDuration :: "64 word"
  Parts :: "Address list"
  ParamsApp :: App
  Nonce :: int

record State =
  ID :: ID
  Version :: "64 word"
  StateApp :: App
  Allocation :: Allocation
  Data :: "byte list"
  IsFinal :: bool

text \<open>
  A transaction embeds a pointer to a state; the zero value \<open>Transaction{}\<close> has a
  \<open>nil\<close> state and no signature slots.
\<close>

record Transaction =
  TxState :: "State option"
  Sigs :: "sig option list"

definition emptyTX :: Transaction where
  "emptyTX = \<lparr>TxState = None, Sigs = []\<rparr>"

subsection \<open>Errors and outcomes\<close>

text \<open>
  Errors are values. \<open>Errorf\<close> keeps the format string and its arguments apart;
  \<open>WithMessage\<close> and \<open>WithMessagef\<close> are the wrappers of \<open>github.com/pkg/errors\<close> and
  \<open>Cause\<close> unwraps them.
  \<open>External\<close> stands for an error produced by a collaborator (signing backend,
  allocation checks, transport). A Go panic is the outcome \<open>Panic\<close>.
  The constructors of the phase-transition and state-transition errors are not
  among the sources: an error of either kind holds the arguments it was built from
  (channel ID, current phase, expected transition, message).
  \<open>IsPhaseTransitionError e\<close> says that the cause of \<open>e\<close> is a phase-transition error.
\<close>

datatype arg = ArgIdx nat | ArgID ID

datatype error =
    PhaseTransitionError ID Phase PhaseTransition string "arg list"
  | StateTransitionError ID string "error option"
  | Errorf string "arg list"
  | WithMessage error string
  | WithMessagef error string "arg list"
  | External string

datatype 'a outcome = Ok 'a | Err error | Panic

fun Cause :: "error \<Rightarrow> error" where
  "Cause (WithMessage e msg) = Cause e"
| "Cause (WithMessagef e format as) = Cause e"
| "Cause e = e"

fun IsPhaseTransitionError :: "error \<Rightarrow> bool" where
  "IsPhaseTransitionError e =
     (case Cause e of PhaseTransitionError i cur tr msg as \<Rightarrow> True | _ \<Rightarrow> False)"

section \<open>The channel state machine (channel/machine.go)\<close>

text \<open>
  The machine keeps the fields of the Go struct. The logger is left out. A subscriber
  channel is a number; \<open>subs\<close> maps a phase to its named subscribers (an association
  list, the empty list for a phase without subscribers), and \<open>notified\<close> records, in
  order, every transition sent on a subscriber channel.
\<close>

type_synonym chan = nat

record machine =
  phase :: Phase
  acc :: Account
  idx :: Index
  params :: Params
  stagingTX :: Transaction
  currentTX :: Transaction
  prevTXs :: "Transaction list"
  subs :: "Phase \<Rightarrow> (string \<times> chan) list"
  notified :: "(chan \<times> PhaseTransition) list"

definition signingPhases :: "Phase list" where
  "signingPhases = [InitSigning, Signing]"

definition N :: "machine \<Rightarrow> Index" where
  "N m = of_nat (length (Parts (params m)))"

definition notifySubs :: "Phase \<Rightarrow> machine \<Rightarrow> machine" where
  "notifySubs from m =
     (let transition = PhaseTransition from (phase m)
      in m\<lparr>notified := notified m @ map (\<lambda>(who, sub). (sub, transition)) (subs m (phase m))\<rparr>)"

definition setPhase :: "Phase \<Rightarrow> machine \<Rightarrow> machine" where
  "setPhase p m = (let oldPhase = phase m in notifySubs oldPhase (m\<lparr>phase := p\<rparr>))"

fun inPhase :: "Phase \<Rightarrow> Phase list \<Rightarrow> bool" where
  "inPhase ph [] = False"
| "inPhase ph (p # ps) = (if p = ph then True else inPhase ph ps)"

definition selfTransition :: "machine \<Rightarrow> PhaseTransition" where
  "selfTransition m = PhaseTransition (phase m) (phase m)"

definition error :: "machine \<Rightarrow> PhaseTransition \<Rightarrow> string \<Rightarrow> error" where
  "error m expected msg = PhaseTransitionError (id (params m)) (phase m) expected msg []"

definition errorf :: "machine \<Rightarrow> PhaseTransition \<Rightarrow> string \<Rightarrow> arg list \<Rightarrow> error" where
  "errorf m expected format as = PhaseTransitionError (id (params m)) (phase m) expected format as"

text \<open>
  Signing and verification belong to the wallet backend; they are parameters of the
  operations that use them. A successful \<open>Sign\<close> returns a signature (not \<open>nil\<close>).
\<close>

type_synonym signer = "Account \<Rightarrow> Params \<Rightarrow> State option \<Rightarrow> error + sig"
type_synonym verifier = "Address \<Rightarrow> Params \<Rightarrow> State option \<Rightarrow> sig option \<Rightarrow> error + bool"

definition Sig :: "signer \<Rightarrow> machine \<Rightarrow> sig outcome \<times> machine" where
  "Sig Sign m =
     (if \<not> inPhase (phase m) signingPhases
      then (Err (error m (selfTransition m) ''can only create own signature in a signing phase''), m)
      else if \<not> unat (idx m) < length (Sigs (stagingTX m)) then (Panic, m)
      else (case Sigs (stagingTX m) ! unat (idx m) of
              None \<Rightarrow>
                (case Sign (acc m) (params m) (TxState (stagingTX m)) of
                   Inl err \<Rightarrow> (Err err, m)
                 | Inr sg \<Rightarrow>
                     (Ok sg, m\<lparr>stagingTX := (stagingTX m)
                        \<lparr>Sigs := (Sigs (stagingTX m))[unat (idx m) := Some sg]\<rparr>\<rparr>))
            | Some sg \<Rightarrow> (Ok sg, m)))"

definition AddSig :: "verifier \<Rightarrow> Index \<Rightarrow> sig option \<Rightarrow> machine \<Rightarrow> unit outcome \<times> machine" where
  "AddSig Verify i sg m =
     (if \<not> inPhase (phase m) signingPhases
      then (Err (error m (selfTransition m) ''can only add signature in a signing phase''), m)
      else if \<not> unat i < length (Sigs (stagingTX m)) then (Panic, m)
      else if Sigs (stagingTX m) ! unat i \<noteq> None
      then (Err (Errorf ''signature for idx %d already present (ID: %x)''
                   [ArgIdx (unat i), ArgID (id (params m))]), m)
      else if \<not> unat i < length (Parts (params m)) then (Panic, m)
      else (case Verify (Parts (params m) ! unat i) (params m) (TxState (stagingTX m)) sg of
              Inl err \<Rightarrow> (Err err, m)
            | Inr ok \<Rightarrow>
                if \<not> ok
                then (Err (Errorf ''invalid signature for idx %d (ID: %x)''
                             [ArgIdx (unat i), ArgID (id (params m))]), m)
                else (Ok (), m\<lparr>stagingTX := (stagingTX m)
                        \<lparr>Sigs := (Sigs (stagingTX m))[unat i := sg]\<rparr>\<rparr>)))"

definition setStaging :: "Phase \<Rightarrow> State \<Rightarrow> machine \<Rightarrow> machine" where
  "setStaging p s m =
     setPhase p (m\<lparr>stagingTX := \<lparr>TxState = Some s, Sigs = replicate (unat (N m)) None\<rparr>\<rparr>)"

definition validPhaseTransitions :: "PhaseTransition \<Rightarrow> bool" where
  "validPhaseTransitions tr =
     (tr \<in> set [PhaseTransition InitActing InitSigning,
                PhaseTransition InitSigning Funding,
                PhaseTransition Funding Acting,
                PhaseTransition Acting Signing,
                PhaseTransition Signing Acting,
                PhaseTransition Signing Final,
                PhaseTransition Final Settled])"

definition expect :: "PhaseTransition \<Rightarrow> machine \<Rightarrow> error option" where
  "expect tr m =
     (if phase m \<noteq> From tr then Some (error m tr ''not in correct phase'')
      else if \<not> validPhaseTransitions (PhaseTransition (phase m) (To tr))
      then Some (error m tr ''forbidden phase transition'')
      else None)"

definition DiscardUpdate :: "machine \<Rightarrow> unit outcome \<times> machine" where
  "DiscardUpdate m =
     (case expect (PhaseTransition Signing Acting) m of
        Some err \<Rightarrow> (Err err, m)
      | None \<Rightarrow> (Ok (), setPhase Acting (m\<lparr>stagingTX := emptyTX\<rparr>)))"

fun missingSig :: "nat \<Rightarrow> sig option list \<Rightarrow> nat option" where
  "missingSig i [] = None"
| "missingSig i (sg # sgs) = (if sg = None then Some i else missingSig (Suc i) sgs)"

definition enableStaged :: "PhaseTransition \<Rightarrow> machine \<Rightarrow> unit outcome \<times> machine" where
  "enableStaged expected m =
     (case expect expected m of
        Some err \<Rightarrow> (Err (WithMessage err ''no staging phase''), m)
      | None \<Rightarrow>
          (case TxState (stagingTX m) of
             None \<Rightarrow> (Panic, m)
           | Some st \<Rightarrow>
               if (To expected = Final) \<noteq> IsFinal st
               then (Err (error m expected ''State.IsFinal and target phase don't match''), m)
               else (case missingSig 0 (Sigs (stagingTX m)) of
                       Some i \<Rightarrow>
                         (Err (errorf m expected ''signature %d missing from staging TX'' [ArgIdx i]), m)
                     | None \<Rightarrow>
                         (Ok (), setPhase (To expected)
                            (m\<lparr>prevTXs := prevTXs m @ [currentTX m],
                               currentTX := stagingTX m,
                               stagingTX := emptyTX\<rparr>)))))"

definition EnableInit :: "machine \<Rightarrow> unit outcome \<times> machine" where
  "EnableInit m = enableStaged (PhaseTransition InitSigning Funding) m"

definition EnableUpdate :: "machine \<Rightarrow> unit outcome \<times> machine" where
  "EnableUpdate m = enableStaged (PhaseTransition Signing Acting) m"

definition EnableFinal :: "machine \<Rightarrow> unit outcome \<times> machine" where
  "EnableFinal m = enableStaged (PhaseTransition Signing Final) m"

definition SetFunded :: "machine \<Rightarrow> unit outcome \<times> machine" where
  "SetFunded m =
     (case expect (PhaseTransition Funding Acting) m of
        Some err \<Rightarrow> (Err err, m)
      | None \<Rightarrow> (Ok (), setPhase Acting m))"

definition SetSettled :: "machine \<Rightarrow> unit outcome \<times> machine" where
  "SetSettled m =
     (case expect (PhaseTransition Final Settled) m of
        Some err \<Rightarrow> (Err err, m)
      | None \<Rightarrow> (Ok (), setPhase Settled m))"

text \<open>
  Allocation checks. \<open>Allocation.Valid\<close> and \<open>equalSum\<close> belong to package channel
  but are not among the sources at hand; \<open>validTransition\<close> takes them as parameters. \<open>Valid\<close> returns an error or \<open>nil\<close>, \<open>equalSum\<close> a
  boolean or an error.
\<close>

type_synonym allocValid = "Allocation \<Rightarrow> error option"
type_synonym allocEqualSum = "Allocation \<Rightarrow> Allocation \<Rightarrow> error + bool"

definition NewStateTransitionError :: "ID \<Rightarrow> string \<Rightarrow> error" where
  "NewStateTransitionError i s = StateTransitionError i s None"

text \<open>
  \<open>validTransition\<close> reads the machine and never writes it; the machine is returned
  next to the outcome as for every other method. \<open>Equals\<close> on addresses is equality
  of their bytes. Reading \<open>m.currentTX.IsFinal\<close> goes through the embedded state
  pointer and panics when it is \<open>nil\<close>.
\<close>

definition validTransition ::
  "allocValid \<Rightarrow> allocEqualSum \<Rightarrow> State \<Rightarrow> machine \<Rightarrow> unit outcome \<times> machine" where
  "validTransition Valid equalSum to m =
     (if ID to \<noteq> id (params m) then (Err (Errorf ''new state's ID doesn't match'' []), m)
      else if \<not> (Def (ParamsApp (params m)) = Def (StateApp to))
      then (Err (Errorf ''new state's App dosen't match'' []), m)
      else (case TxState (currentTX m) of
              None \<Rightarrow> (Panic, m)
            | Some cur \<Rightarrow>
                if IsFinal cur = True
                then (Err (NewStateTransitionError (id (params m)) ''cannot advance final state''), m)
                else if Version cur + 1 \<noteq> Version to
                then (Err (NewStateTransitionError (id (params m)) ''version must increase by one''), m)
                else (case Valid (Allocation to) of
                        Some err \<Rightarrow>
                          (Err (StateTransitionError (id (params m)) ''invalid allocation: %v'' (Some err)), m)
                      | None \<Rightarrow>
                          (case equalSum (Allocation cur) (Allocation to) of
                             Inl err \<Rightarrow> (Err err, m)
                           | Inr eq \<Rightarrow>
                               if \<not> eq
                               then (Err (NewStateTransitionError (id (params m))
                                            ''allocations must be preserved''), m)
                               else (Ok (), m)))))"

definition Subscribe :: "Phase \<Rightarrow> string \<Rightarrow> chan \<Rightarrow> machine \<Rightarrow> machine" where
  "Subscribe p who sub m = m\<lparr>subs := (subs m)(p := AList.update who sub (subs m p))\<rparr>"

text \<open>
  Modelled from the spec: \<open>Allocation.Valid\<close>, \<open>Allocation.Sum\<close> and \<open>equalSum\<close> of
  package channel are not among the sources. Following the data model, an
  allocation holds, for each participant and each locked sub-allocation, one
  non-negative balance per asset; \<open>Sum\<close> adds the balances of each asset over all
  these rows, and \<open>equalSum\<close> compares the sums of two allocations. The state machine
  does not depend on these definitions: they instantiate the parameters of
  \<open>validTransition\<close> on concrete allocations.
\<close>

definition rows :: "Allocation \<Rightarrow> Bal list list" where
  "rows a = OfParts a @ map Bals (Locked a)"

definition wellFormed :: "Allocation \<Rightarrow> bool" where
  "wellFormed a = list_all (\<lambda>row. length row = length (Assets a)) (rows a)"

definition Sum :: "Allocation \<Rightarrow> Bal list" where
  "Sum a = map (\<lambda>j. sum_list (map (\<lambda>row. row ! j) (rows a))) [0..<length (Assets a)]"

definition Valid :: allocValid where
  "Valid a =
     (if \<not> wellFormed a then Some (External ''dimension mismatch'')
      else if \<not> list_all (list_all (\<lambda>b. 0 \<le> b)) (rows a) then Some (External ''negative balance'')
      else None)"

definition equalSum :: allocEqualSum where
  "equalSum a b =
     (if \<not> wellFormed a \<or> \<not> wellFormed b \<or> length (Assets a) \<noteq> length (Assets b)
      then Inl (External ''dimension mismatch'')
      else Inr (Sum a = Sum b))"

text \<open>
  Modelled from the spec: \<open>StateMachine.Update\<close> of package channel is not among the
  sources. By the spec it is legal only in \<open>Acting\<close>, runs \<open>validTransition\<close>
  against the current state and then the app's check
  \<open>ValidTransition(params, from, to, actorIdx)\<close>, stages the new state and moves to
  \<open>Signing\<close>. The app's check is a parameter.
\<close>

type_synonym appCheck = "Params \<Rightarrow> State \<Rightarrow> State \<Rightarrow> Index \<Rightarrow> error option"

definition StateMachine_Update ::
  "allocValid \<Rightarrow> allocEqualSum \<Rightarrow> appCheck \<Rightarrow> State \<Rightarrow> Index \<Rightarrow> machine
     \<Rightarrow> unit outcome \<times> machine" where
  "StateMachine_Update V E A stagingState actor m =
     (case expect (PhaseTransition Acting Signing) m of
        Some err \<Rightarrow> (Err err, m)
      | None \<Rightarrow>
          (case fst (validTransition V E stagingState m) of
             Err err \<Rightarrow> (Err err, m)
           | Panic \<Rightarrow> (Panic, m)
           | Ok u \<Rightarrow>
               (case TxState (currentTX m) of
                  None \<Rightarrow> (Panic, m)
                | Some cur \<Rightarrow>
                    (case A (params m) cur stagingState actor of
                       Some err \<Rightarrow> (Err err, m)
                     | None \<Rightarrow> (Ok (), setStaging Signing stagingState m)))))"

section \<open>Wire messages of the client (package client)\<close>

text \<open>
  The three channel-update messages. A state is held by pointer and may be \<open>nil\<close>.
  A signature inside a message is its byte string (\<open>nil\<close> and the empty signature are
  not told apart).
\<close>

record ChannelUpdate =
  UpState :: "State option"
  ActorIdx :: "16 word"

record msgChannelUpdate = ChannelUpdate +
  UpSig :: sig

record msgChannelUpdateAcc =
  ChannelID :: ID
  AccVersion :: "64 word"
  AccSig :: sig

record msgChannelUpdateRej =
  Reason :: string
  Alt :: "State option"
  RejActorIdx :: "16 word"
  RejSig :: sig

record ChannelProposalAcc =
  AccSessID :: ID
  ParticipantAddr :: Address

record ChannelProposalRej =
  RejSessID :: ID
  RejReason :: string

datatype Msg =
    MsgUpdate msgChannelUpdate
  | MsgUpdateAcc msgChannelUpdateAcc
  | MsgUpdateRej msgChannelUpdateRej
  | MsgProposalAcc ChannelProposalAcc
  | MsgProposalRej ChannelProposalRej

section \<open>Receiver (package peer)\<close>

text \<open>
  A receiver is its message queue (the buffered Go channel \<open>msgs\<close>, with the capacity
  it was made with) and the closed flag of the embedded \<open>sync.Closer\<close>. A peer is a
  number. A context is represented by whether its \<open>Done\<close> channel is closed.

  A Go \<open>select\<close> runs one of the cases that are ready, chosen at random, the default
  case if there is one and none is ready, and blocks otherwise. The random choice is
  an oracle \<open>ch\<close> from the ready cases (numbered in source order) to one of them;
  \<open>pick\<close> makes any oracle answer within the list.
\<close>

type_synonym Peer = nat
type_synonym msgTuple = "Peer \<times> Msg"
type_synonym chooser = "nat list \<Rightarrow> nat"

record Receiver =
  msgs :: "msgTuple list"
  capacity :: nat
  closed :: bool

definition receiverBufferSize :: nat where
  "receiverBufferSize = 16"

definition NewReceiver :: Receiver where
  "NewReceiver = \<lparr>msgs = [], capacity = receiverBufferSize, closed = False\<rparr>"

definition pick :: "chooser \<Rightarrow> nat list \<Rightarrow> nat" where
  "pick ch ready = (if ch ready \<in> set ready then ch ready else hd ready)"

text \<open>
  Modelled from the spec: the \<open>Closer\<close> of pkg/sync is not among the sources. \<open>Close\<close>
  closes the receiver, after which the channel \<open>Closed()\<close> is ready in every \<open>select\<close>.
\<close>

definition Close :: "Receiver \<Rightarrow> Receiver" where
  "Close r = r\<lparr>closed := True\<rparr>"

text \<open>
  \<open>Put\<close>: the send is ready when the buffer has room, the other case when the
  receiver is closed. The result says whether \<open>Put\<close> returned; \<open>False\<close> is a producer
  blocked on a full queue.
\<close>

definition Put :: "chooser \<Rightarrow> msgTuple \<Rightarrow> Receiver \<Rightarrow> bool \<times> Receiver" where
  "Put ch t r =
     (let ready = (if length (msgs r) < capacity r then [0] else [])
                @ (if closed r then [1] else [])
      in if ready = [] then (False, r)
         else if pick ch ready = 0 then (True, r\<lparr>msgs := msgs r @ [t]\<rparr>)
         else (True, r))"

text \<open>
  What other goroutines can do while \<open>Next\<close> runs: the context is cancelled, the
  receiver is closed, or a producer puts a message.
\<close>

datatype event = Cancel | CloseEv | Deliver chooser msgTuple

fun after :: "event \<Rightarrow> bool \<times> Receiver \<Rightarrow> bool \<times> Receiver" where
  "after Cancel (expired, r) = (True, r)"
| "after CloseEv (expired, r) = (expired, Close r)"
| "after (Deliver ch t) (expired, r) = (expired, snd (Put ch t r))"

text \<open>
  The second \<open>select\<close> of \<open>Next\<close>. When no case is ready it waits for the next event;
  when the events run out it is still blocked and the result is \<open>None\<close>. A returned
  \<open>Some None\<close> is the Go result \<open>(nil, nil)\<close>.
\<close>

fun select2 ::
  "chooser \<Rightarrow> event list \<Rightarrow> bool \<Rightarrow> Receiver \<Rightarrow> msgTuple option option \<times> Receiver" where
  "select2 ch evs expired r =
     (let ready = (if expired then [0] else [])
                @ (if closed r then [1] else [])
                @ (if msgs r \<noteq> [] then [2] else [])
      in if ready \<noteq> []
         then (if pick ch ready = 2 then (Some (Some (hd (msgs r))), r\<lparr>msgs := tl (msgs r)\<rparr>)
               else (Some None, r))
         else (case evs of
                 [] \<Rightarrow> (None, r)
               | e # es \<Rightarrow> select2 ch es (fst (after e (expired, r))) (snd (after e (expired, r)))))"

text \<open>
  \<open>Next\<close>: the first \<open>select\<close> has a default case and returns \<open>(nil, nil)\<close> when the
  context is done or the receiver closed; otherwise the second \<open>select\<close> runs. The two
  are separate statements, and other goroutines run in between: \<open>between\<close> are the
  events that happen after the first \<open>select\<close> and before the second, \<open>evs\<close> those that
  arrive while the second \<open>select\<close> waits.
\<close>

definition Next ::
  "chooser \<Rightarrow> event list \<Rightarrow> event list \<Rightarrow> bool \<Rightarrow> Receiver
     \<Rightarrow> msgTuple option option \<times> Receiver" where
  "Next ch between evs expired r =
     (if expired \<or> closed r then (Some None, r)
      else (case fold after between (expired, r) of
              (expired', r') \<Rightarrow> select2 ch evs expired' r'))"

section \<open>Channel controller (package client)\<close>

text \<open>
  Modelled from the spec: \<open>peer.Broadcaster\<close> is not among the sources. \<open>Send\<close> delivers
  the message to the peers and returns the first error or \<open>nil\<close>. The broadcaster is
  the list of messages it has delivered and the answer of the transport (\<open>failure\<close>,
  which also stands for an expired context).
\<close>

record Broadcaster =
  delivered :: "Msg list"
  failure :: "error option"

definition Send :: "Msg \<Rightarrow> Broadcaster \<Rightarrow> error option \<times> Broadcaster" where
  "Send msg b =
     (case failure b of
        Some err \<Rightarrow> (Some err, b)
      | None \<Rightarrow> (None, b\<lparr>delivered := delivered b @ [msg]\<rparr>))"

text \<open>
  A channel connection bundles a receiver, a broadcaster and the map from peers to
  participant indices. The controller holds the connection and the state machine;
  its mutex is left out, every call running alone.
\<close>

record channelConn =
  receiver :: Receiver
  broadcaster :: Broadcaster
  peerIdx :: "(Peer \<times> Index) list"

record Channel =
  conn :: channelConn
  machine :: machine

definition send :: "Msg \<Rightarrow> channelConn \<Rightarrow> error option \<times> channelConn" where
  "send msg c =
     (case Send msg (broadcaster c) of (err, b) \<Rightarrow> (err, c\<lparr>broadcaster := b\<rparr>))"

text \<open>
  \<open>recv\<close> takes the next message of the receiver and translates its peer. A \<open>nil\<close> peer
  or a peer that is not in the map panics. A blocked \<open>Next\<close> is the result \<open>None\<close>.
\<close>

definition recv ::
  "chooser \<Rightarrow> event list \<Rightarrow> event list \<Rightarrow> bool \<Rightarrow> channelConn
     \<Rightarrow> (Index \<times> Msg) outcome option \<times> channelConn" where
  "recv ch between evs expired c =
     (case Next ch between evs expired (receiver c) of
        (None, r) \<Rightarrow> (None, c\<lparr>receiver := r\<rparr>)
      | (Some None, r) \<Rightarrow> (Some Panic, c\<lparr>receiver := r\<rparr>)
      | (Some (Some (p, msg)), r) \<Rightarrow>
          (case map_of (peerIdx c) p of
             None \<Rightarrow> (Some Panic, c\<lparr>receiver := r\<rparr>)
           | Some i \<Rightarrow> (Some (Ok (i, msg)), c\<lparr>receiver := r\<rparr>)))"

definition validTwoPartyUpdate :: "ChannelUpdate \<Rightarrow> Index \<Rightarrow> unit outcome" where
  "validTwoPartyUpdate up sigIdx =
     (if ActorIdx up \<noteq> sigIdx
      then Err (Errorf
        ''Currently, only update proposals with the proposing peer as actor are allowed.'' [])
      else (case UpState up of
              None \<Rightarrow> Panic
            | Some st \<Rightarrow>
                if length (Locked (Allocation st)) > 0
                then Err (Errorf ''no locked sub-allocations allowed'' [])
                else Ok ()))"

text \<open>
  \<open>Channel.Update\<close> as the source has it: after the checks, \<open>machine.Update\<close> and
  \<open>machine.Sig\<close>, it sends a \<open>msgChannelUpdateAcc\<close> with the channel ID, the version
  of the proposed state and the own signature, and returns the result of the send.
\<close>

definition Channel_Update ::
  "allocValid \<Rightarrow> allocEqualSum \<Rightarrow> appCheck \<Rightarrow> signer \<Rightarrow> ChannelUpdate \<Rightarrow> Channel
     \<Rightarrow> unit outcome \<times> Channel" where
  "Channel_Update V E A Sign up c =
     (case validTwoPartyUpdate up (idx (machine c)) of
        Err err \<Rightarrow> (Err err, c)
      | Panic \<Rightarrow> (Panic, c)
      | Ok u \<Rightarrow>
          (case UpState up of
             None \<Rightarrow> (Panic, c)
           | Some st \<Rightarrow>
               (case StateMachine_Update V E A st (ActorIdx up) (machine c) of
                  (Err err, m1) \<Rightarrow> (Err (WithMessage err ''updating machine''), c\<lparr>machine := m1\<rparr>)
                | (Panic, m1) \<Rightarrow> (Panic, c\<lparr>machine := m1\<rparr>)
                | (Ok u1, m1) \<Rightarrow>
                    (case Sig Sign m1 of
                       (Panic, m2) \<Rightarrow> (Panic, c\<lparr>machine := m2\<rparr>)
                     | (Err err, m2) \<Rightarrow>
                         (case DiscardUpdate m2 of
                            (Err derr, m3) \<Rightarrow>
                              (Err (WithMessage derr
                                 ''signing failed: %v, then discarding update failed''),
                               c\<lparr>machine := m3\<rparr>)
                          | (Panic, m3) \<Rightarrow> (Panic, c\<lparr>machine := m3\<rparr>)
                          | (Ok u3, m3) \<Rightarrow>
                              (Err (WithMessage err ''signing updated state''), c\<lparr>machine := m3\<rparr>))
                     | (Ok sg, m2) \<Rightarrow>
                         (let msgUpAcc = \<lparr>ChannelID = id (params m2), AccVersion = Version st,
                                          AccSig = sg\<rparr>
                          in (case send (MsgUpdateAcc msgUpAcc) (conn c) of
                                (Some err, cn) \<Rightarrow> (Err err, c\<lparr>machine := m2, conn := cn\<rparr>)
                              | (None, cn) \<Rightarrow> (Ok (), c\<lparr>machine := m2, conn := cn\<rparr>)))))))"

section \<open>Responders (package client)\<close>

text \<open>
  Modelled from the spec: \<open>atomic.Bool\<close> (pkg/sync/atomic) is not among the sources.
  \<open>TrySet\<close> sets the flag and reports whether this call was the one that set it; it
  is one indivisible step, so concurrent calls take effect in some order, one after
  the other.
\<close>

definition TrySet :: "bool \<Rightarrow> bool \<times> bool" where
  "TrySet flag = (\<not> flag, True)"

text \<open>
  A responder hands the user's answer to the protocol side over one of its Go
  channels (\<open>accept\<close> or \<open>reject\<close>) and returns what comes back on \<open>err\<close>. The values
  handed over are recorded in order in \<open>handed\<close>; the protocol side is the function
  \<open>serve\<close> from the answer to the error it reports. Contexts are left out.
\<close>

record ProposalAcc =
  Participant :: "Account option"

datatype proposalAnswer = ctxProposalAcc ProposalAcc | ctxProposalRej string

record ProposalResponder =
  propHanded :: "proposalAnswer list"
  propCalled :: bool

definition newProposalResponder :: ProposalResponder where
  "newProposalResponder = \<lparr>propHanded = [], propCalled = False\<rparr>"

definition returned :: "error option \<Rightarrow> unit outcome" where
  "returned e = (case e of None \<Rightarrow> Ok () | Some err \<Rightarrow> Err err)"

definition ProposalResponder_Accept ::
  "(proposalAnswer \<Rightarrow> error option) \<Rightarrow> ProposalAcc \<Rightarrow> ProposalResponder
     \<Rightarrow> unit outcome \<times> ProposalResponder" where
  "ProposalResponder_Accept serve res r =
     (case TrySet (propCalled r) of
        (won, flag) \<Rightarrow>
          if \<not> won then (Panic, r\<lparr>propCalled := flag\<rparr>)
          else (returned (serve (ctxProposalAcc res)),
                r\<lparr>propCalled := flag, propHanded := propHanded r @ [ctxProposalAcc res]\<rparr>))"

definition ProposalResponder_Reject ::
  "(proposalAnswer \<Rightarrow> error option) \<Rightarrow> string \<Rightarrow> ProposalResponder
     \<Rightarrow> unit outcome \<times> ProposalResponder" where
  "ProposalResponder_Reject serve reason r =
     (case TrySet (propCalled r) of
        (won, flag) \<Rightarrow>
          if \<not> won then (Panic, r\<lparr>propCalled := flag\<rparr>)
          else (returned (serve (ctxProposalRej reason)),
                r\<lparr>propCalled := flag, propHanded := propHanded r @ [ctxProposalRej reason]\<rparr>))"

text \<open>
  The protocol side of a proposal: the \<open>select\<close> of \<open>handleChannelProposal\<close>, as a
  function from the user's answer to the error it puts on \<open>err\<close>. \<open>peerSend\<close> is the
  result of \<open>p.Send\<close>, \<open>sessID\<close> the session ID of the proposal.
\<close>

definition handleChannelProposal ::
  "(Msg \<Rightarrow> error option) \<Rightarrow> ID \<Rightarrow> proposalAnswer \<Rightarrow> error option" where
  "handleChannelProposal peerSend sessID answer =
     (case answer of
        ctxProposalAcc pa \<Rightarrow>
          (case Participant pa of
             None \<Rightarrow> Some (Errorf ''nil Participant in ProposalAcc'' [])
           | Some a \<Rightarrow>
               peerSend (MsgProposalAcc \<lparr>AccSessID = sessID, ParticipantAddr = address a\<rparr>))
      | ctxProposalRej reason \<Rightarrow>
          peerSend (MsgProposalRej \<lparr>RejSessID = sessID, RejReason = reason\<rparr>))"

datatype updateAnswer = ctxUpdateAcc | ctxUpdateRej string

record UpdateResponder =
  upHanded :: "updateAnswer list"
  upCalled :: bool

definition newUpdateResponder :: UpdateResponder where
  "newUpdateResponder = \<lparr>upHanded = [], upCalled = False\<rparr>"

definition UpdateResponder_Accept ::
  "(updateAnswer \<Rightarrow> error option) \<Rightarrow> UpdateResponder \<Rightarrow> unit outcome \<times> UpdateResponder" where
  "UpdateResponder_Accept serve r =
     (case TrySet (upCalled r) of
        (won, flag) \<Rightarrow>
          if \<not> won then (Panic, r\<lparr>upCalled := flag\<rparr>)
          else (returned (serve ctxUpdateAcc),
                r\<lparr>upCalled := flag, upHanded := upHanded r @ [ctxUpdateAcc]\<rparr>))"

definition UpdateResponder_Reject ::
  "(updateAnswer \<Rightarrow> error option) \<Rightarrow> string \<Rightarrow> UpdateResponder
     \<Rightarrow> unit outcome \<times> UpdateResponder" where
  "UpdateResponder_Reject serve reason r =
     (case TrySet (upCalled r) of
        (won, flag) \<Rightarrow>
          if \<not> won then (Panic, r\<lparr>upCalled := flag\<rparr>)
          else (returned (serve (ctxUpdateRej reason)),
                r\<lparr>upCalled := flag, upHanded := upHanded r @ [ctxUpdateRej reason]\<rparr>))"

text \<open>
  A sequence of calls on one responder, in the order in which their \<open>TrySet\<close> takes
  effect. A call is named by the answer it carries. A panicking call does not stop
  the calls of the other goroutines, so the sequence runs on.
\<close>

fun proposalCalls ::
  "(proposalAnswer \<Rightarrow> error option) \<Rightarrow> proposalAnswer list \<Rightarrow> ProposalResponder
     \<Rightarrow> unit outcome list \<times> ProposalResponder" where
  "proposalCalls serve [] r = ([], r)"
| "proposalCalls serve (c # cs) r =
     (case (case c of ctxProposalAcc res \<Rightarrow> ProposalResponder_Accept serve res r
                    | ctxProposalRej reason \<Rightarrow> ProposalResponder_Reject serve reason r) of
        (out, r1) \<Rightarrow> (case proposalCalls serve cs r1 of (outs, r2) \<Rightarrow> (out # outs, r2)))"

fun updateCalls ::
  "(updateAnswer \<Rightarrow> error option) \<Rightarrow> updateAnswer list \<Rightarrow> UpdateResponder
     \<Rightarrow> unit outcome list \<times> UpdateResponder" where
  "updateCalls serve [] r = ([], r)"
| "updateCalls serve (c # cs) r =
     (case (case c of ctxUpdateAcc \<Rightarrow> UpdateResponder_Accept serve r
                    | ctxUpdateRej reason \<Rightarrow> UpdateResponder_Reject serve reason r) of
        (out, r1) \<Rightarrow> (case updateCalls serve cs r1 of (outs, r2) \<Rightarrow> (out # outs, r2)))"

section \<open>Serialization (pkg/io/serializable.go and the messages of package client)\<close>

text \<open>
  A writer is the bytes written so far, a reader the bytes that remain. An encoder
  writes to a writer and may fail; a decoder reads a value from a reader or fails.
\<close>

type_synonym writer = "byte list"
type_synonym reader = "byte list"
type_synonym encoder = "writer \<Rightarrow> unit outcome \<times> writer"
type_synonym 'a decoder = "reader \<Rightarrow> error + ('a \<times> reader)"

text \<open>
  \<open>Encode\<close> of pkg/io: the values are encoded in order, and the first failure is
  returned with the index of the value; \<open>wire.Encode\<close> is taken to loop in the same
  way. \<open>EncodeFrom i\<close> is the loop from index \<open>i\<close> on.
\<close>

fun EncodeFrom :: "nat \<Rightarrow> encoder list \<Rightarrow> encoder" where
  "EncodeFrom i [] w = (Ok (), w)"
| "EncodeFrom i (v # vs) w =
     (case v w of
        (Err err, w') \<Rightarrow> (Err (WithMessagef err ''failed to encode %dth object (%T)'' [ArgIdx i]), w')
      | (Panic, w') \<Rightarrow> (Panic, w')
      | (Ok u, w') \<Rightarrow> EncodeFrom (Suc i) vs w')"

definition Encode :: "encoder list \<Rightarrow> encoder" where
  "Encode values w = EncodeFrom 0 values w"

text \<open>
  \<open>Decode\<close> of pkg/io decodes into its arguments in order. The values have different
  types, so the loop is written as a chain: \<open>decodeAt i dec k\<close> decodes the \<open>i\<close>-th
  value with \<open>dec\<close>, wraps a failure with the index, and goes on with \<open>k\<close>.
\<close>

definition decodeAt :: "nat \<Rightarrow> 'a decoder \<Rightarrow> ('a \<Rightarrow> 'b decoder) \<Rightarrow> 'b decoder" where
  "decodeAt i dec k r =
     (case dec r of
        Inl err \<Rightarrow> Inl (WithMessagef err ''failed to decode %dth object (%T)'' [ArgIdx i])
      | Inr (v, r') \<Rightarrow> k v r')"

definition decoded :: "'a \<Rightarrow> 'a decoder" where
  "decoded v r = Inr (v, r)"

text \<open>
  Modelled from the spec: the wire package (\<open>wire.Encode\<close>, \<open>wire.Decode\<close>) is not among
  the sources. By the spec integers are big-endian and of fixed width, a channel ID
  is 32 bytes, strings are length-prefixed (the prefix is taken to be a \<open>uint16\<close>, and
  a longer string is an encoding error) and a signature has the fixed length of the
  backend and is written as it is. Reading past the end of the input is an error.
\<close>

fun be_bytes :: "nat \<Rightarrow> nat \<Rightarrow> byte list" where
  "be_bytes 0 v = []"
| "be_bytes (Suc n) v = be_bytes n (v div 256) @ [of_nat (v mod 256)]"

definition be_nat :: "byte list \<Rightarrow> nat" where
  "be_nat bs = foldl (\<lambda>a b. a * 256 + unat b) 0 bs"

definition writeBytes :: "byte list \<Rightarrow> encoder" where
  "writeBytes bs w = (Ok (), w @ bs)"

definition readBytes :: "nat \<Rightarrow> byte list decoder" where
  "readBytes n r =
     (if length r < n then Inl (External ''unexpected EOF'') else Inr (take n r, drop n r))"

definition encodeUint16 :: "16 word \<Rightarrow> encoder" where
  "encodeUint16 v = writeBytes (be_bytes 2 (unat v))"

definition decodeUint16 :: "16 word decoder" where
  "decodeUint16 r =
     (case readBytes 2 r of Inl err \<Rightarrow> Inl err | Inr (bs, r') \<Rightarrow> Inr (of_nat (be_nat bs), r'))"

definition encodeUint64 :: "64 word \<Rightarrow> encoder" where
  "encodeUint64 v = writeBytes (be_bytes 8 (unat v))"

definition decodeUint64 :: "64 word decoder" where
  "decodeUint64 r =
     (case readBytes 8 r of Inl err \<Rightarrow> Inl err | Inr (bs, r') \<Rightarrow> Inr (of_nat (be_nat bs), r'))"

definition encodeID :: "ID \<Rightarrow> encoder" where
  "encodeID v = writeBytes (be_bytes 32 (unat v))"

definition decodeID :: "ID decoder" where
  "decodeID r =
     (case readBytes 32 r of Inl err \<Rightarrow> Inl err | Inr (bs, r') \<Rightarrow> Inr (of_nat (be_nat bs), r'))"

definition encodeString :: "string \<Rightarrow> encoder" where
  "encodeString s w =
     (if length s < 65536
      then writeBytes (be_bytes 2 (length s) @ map (\<lambda>c. of_nat (of_char c)) s) w
      else (Err (External ''string too long''), w))"

definition decodeString :: "string decoder" where
  "decodeString r =
     (case readBytes 2 r of
        Inl err \<Rightarrow> Inl err
      | Inr (l, r1) \<Rightarrow>
          (case readBytes (be_nat l) r1 of
             Inl err \<Rightarrow> Inl err
           | Inr (bs, r2) \<Rightarrow> Inr (map (\<lambda>b. char_of (unat b)) bs, r2)))"

definition encodeSig :: "sig \<Rightarrow> encoder" where
  "encodeSig sg = writeBytes sg"

text \<open>
  \<open>DecodeSig\<close> as the wallet backend has it: a buffer of \<open>SigLen\<close> bytes is filled from
  the reader. \<open>SigLen\<close> is the backend's constant (65 for the Ethereum backend).
\<close>

definition DecodeSig :: "nat \<Rightarrow> sig decoder" where
  "DecodeSig SigLen r = readBytes SigLen r"

text \<open>
  The encoding of a state (package channel) is not among the sources and the spec
  does not describe it: the encoder and the decoder of states are parameters.
  Encoding through a \<open>nil\<close> state pointer is taken to panic.
\<close>

type_synonym stateEncoder = "State \<Rightarrow> encoder"
type_synonym stateDecoder = "State decoder"

definition encodeStatePtr :: "stateEncoder \<Rightarrow> State option \<Rightarrow> encoder" where
  "encodeStatePtr encState p w = (case p of None \<Rightarrow> (Panic, w) | Some st \<Rightarrow> encState st w)"

text \<open>
  The three messages. \<open>Decode\<close> runs on a fresh message, as the registered decoders
  do: the state pointer is \<open>nil\<close> and a new state is allocated to decode into.
\<close>

definition msgChannelUpdate_Encode :: "stateEncoder \<Rightarrow> msgChannelUpdate \<Rightarrow> encoder" where
  "msgChannelUpdate_Encode encState c =
     Encode [encodeStatePtr encState (UpState c), encodeUint16 (ActorIdx c), encodeSig (UpSig c)]"

definition msgChannelUpdate_Decode :: "stateDecoder \<Rightarrow> nat \<Rightarrow> msgChannelUpdate decoder" where
  "msgChannelUpdate_Decode decState SigLen r =
     (case decodeAt 0 decState (\<lambda>st. decodeAt 1 decodeUint16 (\<lambda>a. decoded (st, a))) r of
        Inl err \<Rightarrow> Inl err
      | Inr ((st, a), r') \<Rightarrow>
          (case DecodeSig SigLen r' of
             Inl err \<Rightarrow> Inl err
           | Inr (sg, r'') \<Rightarrow> Inr (\<lparr>UpState = Some st, ActorIdx = a, UpSig = sg\<rparr>, r'')))"

definition msgChannelUpdateAcc_Encode :: "msgChannelUpdateAcc \<Rightarrow> encoder" where
  "msgChannelUpdateAcc_Encode c =
     Encode [encodeID (ChannelID c), encodeUint64 (AccVersion c), encodeSig (AccSig c)]"

definition msgChannelUpdateAcc_Decode :: "nat \<Rightarrow> msgChannelUpdateAcc decoder" where
  "msgChannelUpdateAcc_Decode SigLen r =
     (case decodeAt 0 decodeID (\<lambda>i. decodeAt 1 decodeUint64 (\<lambda>v. decoded (i, v))) r of
        Inl err \<Rightarrow> Inl err
      | Inr ((i, v), r') \<Rightarrow>
          (case DecodeSig SigLen r' of
             Inl err \<Rightarrow> Inl err
           | Inr (sg, r'') \<Rightarrow> Inr (\<lparr>ChannelID = i, AccVersion = v, AccSig = sg\<rparr>, r'')))"

definition msgChannelUpdateRej_Encode :: "stateEncoder \<Rightarrow> msgChannelUpdateRej \<Rightarrow> encoder" where
  "msgChannelUpdateRej_Encode encState c =
     Encode [encodeString (Reason c), encodeStatePtr encState (Alt c),
             encodeUint16 (RejActorIdx c), encodeSig (RejSig c)]"

definition msgChannelUpdateRej_Decode :: "stateDecoder \<Rightarrow> nat \<Rightarrow> msgChannelUpdateRej decoder" where
  "msgChannelUpdateRej_Decode decState SigLen r =
     (case decodeAt 0 decodeString (\<lambda>reason. decodeAt 1 decState (\<lambda>st.
             decodeAt 2 decodeUint16 (\<lambda>a. decoded (reason, st, a)))) r of
        Inl err \<Rightarrow> Inl err
      | Inr ((reason, st, a), r') \<Rightarrow>
          (case DecodeSig SigLen r' of
             Inl err \<Rightarrow> Inl err
           | Inr (sg, r'') \<Rightarrow>
               Inr (\<lparr>Reason = reason, Alt = Some st, RejActorIdx = a, RejSig = sg\<rparr>, r'')))"

section \<open>Observations used in the statements\<close>

text \<open>
  \<open>carries e i cur tr\<close>: the cause of \<open>e\<close> is a phase-transition error of channel \<open>i\<close>
  holding the current phase \<open>cur\<close> and the attempted transition \<open>tr\<close>.
  \<open>rejects m tr r\<close>: the call returned such an error and the machine it returned is
  the machine it was given. \<open>phaseSafe m r\<close>: the phase after the call is the phase
  before it, or follows it along an entry of \<open>validPhaseTransitions\<close>.
\<close>

fun carries :: "error \<Rightarrow> ID \<Rightarrow> Phase \<Rightarrow> PhaseTransition \<Rightarrow> bool" where
  "carries e i cur tr =
     (case Cause e of
        PhaseTransitionError i' cur' tr' msg as \<Rightarrow> i' = i \<and> cur' = cur \<and> tr' = tr
      | _ \<Rightarrow> False)"

definition phaseSafe :: "machine \<Rightarrow> 'a outcome \<times> machine \<Rightarrow> bool" where
  "phaseSafe m r =
     (phase (snd r) = phase m
      \<or> validPhaseTransitions (PhaseTransition (phase m) (phase (snd r))))"

definition rejects :: "machine \<Rightarrow> PhaseTransition \<Rightarrow> 'a outcome \<times> machine \<Rightarrow> bool" where
  "rejects m tr r =
     (snd r = m
      \<and> (case fst r of Err e \<Rightarrow> carries e (id (params m)) (phase m) tr | _ \<Rightarrow> False))"

text \<open>
  \<open>failsPhase m r\<close>: the call failed with a phase-transition error (whatever it
  carries) and left the machine as it was.
\<close>

definition failsPhase :: "machine \<Rightarrow> unit outcome \<times> machine \<Rightarrow> bool" where
  "failsPhase m r =
     (snd r = m \<and> (case fst r of Err e \<Rightarrow> IsPhaseTransitionError e | _ \<Rightarrow> False))"

text \<open>
  \<open>promotes tr m r\<close>: if the call succeeded, the machine was in \<open>From tr\<close> with every
  signature slot filled, and the machine returned is the old one with the current
  transaction pushed to \<open>prevTXs\<close>, the staging transaction promoted and then cleared,
  the phase set to \<open>To tr\<close> and the subscribers of \<open>To tr\<close> notified; otherwise the
  machine is unchanged.
\<close>

definition promotes :: "PhaseTransition \<Rightarrow> machine \<Rightarrow> unit outcome \<times> machine \<Rightarrow> bool" where
  "promotes tr m r =
     (if fst r = Ok ()
      then phase m = From tr
         \<and> (\<forall>s \<in> set (Sigs (stagingTX m)). s \<noteq> None)
         \<and> snd r = m\<lparr>phase := To tr,
                      stagingTX := emptyTX,
                      currentTX := stagingTX m,
                      prevTXs := prevTXs m @ [currentTX m],
                      notified := notified m
                        @ map (\<lambda>(who, sub). (sub, PhaseTransition (phase m) (To tr))) (subs m (To tr))\<rparr>
      else snd r = m)"

text \<open>
  Runs of a receiver: any sequence of \<open>Put\<close>, \<open>Next\<close> and \<open>Close\<close>. \<open>bounded\<close>: the queue
  has the capacity \<open>receiverBufferSize\<close> and holds no more messages than that.
  \<open>quiet\<close>: a list of events with no cancellation and no close. \<open>puts\<close>: the messages
  that the events of a list put.
\<close>

datatype receiverOp =
    DoPut chooser msgTuple
  | DoNext chooser "event list" "event list" bool
  | DoClose

fun runOp :: "receiverOp \<Rightarrow> Receiver \<Rightarrow> Receiver" where
  "runOp (DoPut ch t) r = snd (Put ch t r)"
| "runOp (DoNext ch between evs expired) r = snd (Next ch between evs expired r)"
| "runOp DoClose r = Close r"





text \<open>
  \<open>roundtrips enc dec x\<close>: encoding \<open>x\<close> appends some bytes to any writer, and decoding
  from a reader that starts with these bytes gives \<open>x\<close> back and leaves the rest.
\<close>

definition roundtrips :: "('a \<Rightarrow> encoder) \<Rightarrow> 'a decoder \<Rightarrow> 'a \<Rightarrow> bool" where
  "roundtrips enc dec x =
     (\<exists>bs. (\<forall>w. enc x w = (Ok (), w @ bs)) \<and> (\<forall>rest. dec (bs @ rest) = Inr (x, rest)))"

section \<open>Concrete instances\<close>

text \<open>
  A two-party channel with one asset, a signer whose signature is the signer's
  address and the verifier that accepts exactly that, used to run the operations on
  concrete machines.
\<close>

definition sampleParams :: Params where
  "sampleParams =
     \<lparr>id = 7, ChallengeDuration = 10, Parts = [[1], [2]], ParamsApp = \<lparr>Def = [9]\<rparr>, Nonce = 0\<rparr>"

definition sampleState :: "64 word \<Rightarrow> Bal \<Rightarrow> Bal \<Rightarrow> bool \<Rightarrow> State" where
  "sampleState v a b fin =
     \<lparr>ID = 7, Version = v, StateApp = \<lparr>Def = [9]\<rparr>,
      Allocation = \<lparr>Assets = [[0]], OfParts = [[a], [b]], Locked = []\<rparr>,
      Data = [], IsFinal = fin\<rparr>"

definition sampleSign :: signer where
  "sampleSign a p s = Inr (address a)"

definition sampleVerify :: verifier where
  "sampleVerify a p s sg = Inr (sg = Some a)"

definition sampleMachine :: "Phase \<Rightarrow> Transaction \<Rightarrow> Transaction \<Rightarrow> machine" where
  "sampleMachine p staging current =
     \<lparr>phase = p, acc = \<lparr>address = [1], secret = [42]\<rparr>, idx = 0, params = sampleParams,
      stagingTX = staging, currentTX = current, prevTXs = [],
      subs = (\<lambda>q. if q = Acting then [(''funder'', 3)] else []), notified = []\<rparr>"

definition m_acting :: machine where
  "m_acting = sampleMachine Acting emptyTX
      \<lparr>TxState = Some (sampleState 0 100 100 False), Sigs = [Some [1], Some [2]]\<rparr>"

definition m_initsigning :: machine where
  "m_initsigning = sampleMachine InitSigning
      \<lparr>TxState = Some (sampleState 0 100 100 False), Sigs = [Some [1], Some [2]]\<rparr> emptyTX"

definition m_signing :: "bool \<Rightarrow> sig option list \<Rightarrow> machine" where
  "m_signing fin sgs = sampleMachine Signing
      \<lparr>TxState = Some (sampleState 1 90 110 fin), Sigs = sgs\<rparr>
      \<lparr>TxState = Some (sampleState 0 100 100 False), Sigs = [Some [1], Some [2]]\<rparr>"

definition sampleChannel :: "msgTuple list \<Rightarrow> Channel" where
  "sampleChannel queue =
     \<lparr>conn = \<lparr>receiver = \<lparr>msgs = queue, capacity = receiverBufferSize, closed = False\<rparr>,
              broadcaster = \<lparr>delivered = [], failure = None\<rparr>,
              peerIdx = [(5, 1)]\<rparr>,
      machine = m_acting\<rparr>"

definition sampleApp :: appCheck where
  "sampleApp p from to actor = None"

definition peerAcc :: msgTuple where
  "peerAcc = (5, MsgUpdateAcc \<lparr>ChannelID = 7, AccVersion = 1, AccSig = [2]\<rparr>)"


text \<open>
  A codec for the states of the sample channel (one asset, two participants, no
  locked funds, empty data): channel ID, version, the two balances as \<open>uint64\<close> and
  the final flag.
\<close>

definition sampleEncState :: stateEncoder where
  "sampleEncState st =
     Encode [encodeID (ID st), encodeUint64 (Version st),
             encodeUint64 (of_int (hd (OfParts (Allocation st) ! 0))),
             encodeUint64 (of_int (hd (OfParts (Allocation st) ! 1))),
             writeBytes [if IsFinal st then 1 else 0]]"

definition sampleDecState :: stateDecoder where
  "sampleDecState =
     decodeAt 0 decodeID (\<lambda>i. decodeAt 1 decodeUint64 (\<lambda>v. decodeAt 2 decodeUint64 (\<lambda>a.
       decodeAt 3 decodeUint64 (\<lambda>b. decodeAt 4 (readBytes 1) (\<lambda>f.
         decoded ((sampleState v (uint a) (uint b) (f \<noteq> [0]))\<lparr>ID := i\<rparr>))))))"

section \<open>Properties of the state machine\<close>

lemma phase_setPhase [simp]: "phase (setPhase p m) = p"
  by (simp add: setPhase_def notifySubs_def Let_def)

lemma expect_None_iff:
  "expect tr m = None \<longleftrightarrow> phase m = From tr \<and> validPhaseTransitions tr"
  by (cases tr) (auto simp: expect_def)

lemma phaseSafe_Sig: "phaseSafe m (Sig Sign m)"
  by (simp add: phaseSafe_def Sig_def split: option.splits sum.splits)

lemma phaseSafe_AddSig: "phaseSafe m (AddSig Verify i sg m)"
  by (simp add: phaseSafe_def AddSig_def split: option.splits sum.splits)

lemma phaseSafe_enableStaged:
  "validPhaseTransitions tr \<Longrightarrow> phaseSafe m (enableStaged tr m)"
  by (cases tr) (auto simp: phaseSafe_def enableStaged_def expect_None_iff split: option.splits)

lemma phaseSafe_DiscardUpdate: "phaseSafe m (DiscardUpdate m)"
  by (auto simp: phaseSafe_def DiscardUpdate_def expect_None_iff split: option.splits)

lemma phaseSafe_SetFunded: "phaseSafe m (SetFunded m)"
  by (auto simp: phaseSafe_def SetFunded_def expect_None_iff split: option.splits)

lemma phaseSafe_SetSettled: "phaseSafe m (SetSettled m)"
  by (auto simp: phaseSafe_def SetSettled_def expect_None_iff split: option.splits)

lemma enable_transitions_valid:
  "validPhaseTransitions (PhaseTransition InitSigning Funding)"
  "validPhaseTransitions (PhaseTransition Signing Acting)"
  "validPhaseTransitions (PhaseTransition Signing Final)"
  by (simp_all add: validPhaseTransitions_def)

lemma rejects_enableStaged:
  "phase m \<noteq> From tr \<Longrightarrow> rejects m tr (enableStaged tr m)"
  by (simp add: rejects_def enableStaged_def expect_def error_def)

lemma missingSig_None: "missingSig i sgs = None \<longleftrightarrow> (\<forall>s \<in> set sgs. s \<noteq> None)"
  by (induction sgs arbitrary: i) auto

lemma promotes_enableStaged: "promotes tr m (enableStaged tr m)"
  by (auto simp: promotes_def enableStaged_def expect_None_iff missingSig_None setPhase_def
      notifySubs_def Let_def split: option.splits)

lemma enableStaged_Ok_final:
  "fst (enableStaged tr m) = Ok () \<Longrightarrow>
     \<exists>st. TxState (stagingTX m) = Some st \<and> ((To tr = Final) = IsFinal st)"
  by (auto simp: enableStaged_def split: option.splits if_splits)

lemma failsPhase_enableStaged:
  "TxState (stagingTX m) = Some st \<Longrightarrow> (To tr = Final) \<noteq> IsFinal st \<Longrightarrow>
     failsPhase m (enableStaged tr m)"
  by (auto simp: failsPhase_def enableStaged_def expect_def error_def split: option.splits)

text \<open>
  C2. Whatever operation of the machine is called (\<open>Sig\<close>, \<open>AddSig\<close>, \<open>EnableInit\<close>,
  \<open>EnableUpdate\<close>, \<open>EnableFinal\<close>, \<open>DiscardUpdate\<close>, \<open>SetFunded\<close>, \<open>SetSettled\<close>), the
  phase stays or moves along one of the seven entries of \<open>validPhaseTransitions\<close>.
  An operation called in a phase other than the source of its transition (for
  \<open>Sig\<close> and \<open>AddSig\<close>: outside the signing phases, the attempted transition being the
  self transition) returns a phase-transition error that carries the current phase
  and the attempted transition, and returns the machine unchanged.
\<close>

theorem phase_changes_follow_table:
  "phaseSafe m (Sig Sign m) \<and> phaseSafe m (AddSig Verify i sg m)
   \<and> phaseSafe m (EnableInit m) \<and> phaseSafe m (EnableUpdate m) \<and> phaseSafe m (EnableFinal m)
   \<and> phaseSafe m (DiscardUpdate m) \<and> phaseSafe m (SetFunded m) \<and> phaseSafe m (SetSettled m)
   \<and> (\<not> inPhase (phase m) signingPhases \<longrightarrow>
        rejects m (selfTransition m) (Sig Sign m)
        \<and> rejects m (selfTransition m) (AddSig Verify i sg m))
   \<and> (phase m \<noteq> InitSigning \<longrightarrow> rejects m (PhaseTransition InitSigning Funding) (EnableInit m))
   \<and> (phase m \<noteq> Signing \<longrightarrow>
        rejects m (PhaseTransition Signing Acting) (EnableUpdate m)
        \<and> rejects m (PhaseTransition Signing Final) (EnableFinal m)
        \<and> rejects m (PhaseTransition Signing Acting) (DiscardUpdate m))
   \<and> (phase m \<noteq> Funding \<longrightarrow> rejects m (PhaseTransition Funding Acting) (SetFunded m))
   \<and> (phase m \<noteq> Final \<longrightarrow> rejects m (PhaseTransition Final Settled) (SetSettled m))"
proof -
  have a: "\<not> inPhase (phase m) signingPhases \<Longrightarrow>
        rejects m (selfTransition m) (Sig Sign m)
        \<and> rejects m (selfTransition m) (AddSig Verify i sg m)"
    by (simp add: rejects_def Sig_def AddSig_def error_def)
  have b: "phase m \<noteq> Signing \<Longrightarrow> rejects m (PhaseTransition Signing Acting) (DiscardUpdate m)"
    by (simp add: rejects_def DiscardUpdate_def expect_def error_def)
  have c: "phase m \<noteq> Funding \<Longrightarrow> rejects m (PhaseTransition Funding Acting) (SetFunded m)"
    by (simp add: rejects_def SetFunded_def expect_def error_def)
  have d: "phase m \<noteq> Final \<Longrightarrow> rejects m (PhaseTransition Final Settled) (SetSettled m)"
    by (simp add: rejects_def SetSettled_def expect_def error_def)
  show ?thesis
    using a b c d
    by (simp add: phaseSafe_Sig phaseSafe_AddSig phaseSafe_enableStaged enable_transitions_valid
        phaseSafe_DiscardUpdate phaseSafe_SetFunded phaseSafe_SetSettled
        EnableInit_def EnableUpdate_def EnableFinal_def rejects_enableStaged)
qed

theorem phase_changes_follow_table_witness:
  "rejects m_acting (PhaseTransition Acting Acting) (Sig sampleSign m_acting)
   \<and> rejects m_acting (PhaseTransition Acting Acting) (AddSig sampleVerify 1 (Some [2]) m_acting)
   \<and> rejects m_acting (PhaseTransition InitSigning Funding) (EnableInit m_acting)
   \<and> rejects m_acting (PhaseTransition Signing Acting) (EnableUpdate m_acting)
   \<and> rejects m_acting (PhaseTransition Signing Final) (EnableFinal m_acting)
   \<and> rejects m_acting (PhaseTransition Signing Acting) (DiscardUpdate m_acting)
   \<and> rejects m_acting (PhaseTransition Funding Acting) (SetFunded m_acting)
   \<and> rejects m_acting (PhaseTransition Final Settled) (SetSettled m_acting)
   \<and> phase m_acting = Acting"
  using phase_changes_follow_table [of m_acting sampleSign sampleVerify 1 "Some [2]"]
  by (simp add: m_acting_def sampleMachine_def signingPhases_def selfTransition_def)

text \<open>
  C3. \<open>validTransition to\<close> succeeds exactly when the machine has a current state
  \<open>cur\<close>, the channel ID and the app definition of \<open>to\<close> are those of the parameters,
  \<open>cur\<close> is not final, the version of \<open>to\<close> is the version of \<open>cur\<close> plus one (in
  \<open>uint64\<close> arithmetic), the allocation of \<open>to\<close> is valid and \<open>equalSum\<close> reports equal
  sums for the two allocations. With a current state in place every other call
  returns an error. In every case the machine is unchanged.
\<close>

theorem validTransition_checks:
  "(fst (validTransition V E to m) = Ok () \<longleftrightarrow>
      (\<exists>cur. TxState (currentTX m) = Some cur
          \<and> ID to = id (params m)
          \<and> Def (StateApp to) = Def (ParamsApp (params m))
          \<and> \<not> IsFinal cur
          \<and> Version to = Version cur + 1
          \<and> V (Allocation to) = None
          \<and> E (Allocation cur) (Allocation to) = Inr True))
   \<and> (TxState (currentTX m) \<noteq> None \<and> fst (validTransition V E to m) \<noteq> Ok () \<longrightarrow>
        (\<exists>e. fst (validTransition V E to m) = Err e))
   \<and> snd (validTransition V E to m) = m"
  by (auto simp: validTransition_def split: option.splits sum.splits)

theorem validTransition_checks_witness:
  "validTransition Valid equalSum (sampleState 1 90 110 False) m_acting = (Ok (), m_acting)
   \<and> (\<exists>e. fst (validTransition Valid equalSum (sampleState 2 90 110 False) m_acting) = Err e)
   \<and> (\<exists>e. fst (validTransition Valid equalSum (sampleState 1 90 111 False) m_acting) = Err e)
   \<and> snd (validTransition Valid equalSum (sampleState 2 90 110 False) m_acting) = m_acting"
proof -
  have cur: "TxState (currentTX m_acting) = Some (sampleState 0 100 100 False)"
    by (simp add: m_acting_def sampleMachine_def)
  have conds: "ID (sampleState 1 90 110 False) = id (params m_acting)
      \<and> Def (StateApp (sampleState 1 90 110 False)) = Def (ParamsApp (params m_acting))
      \<and> \<not> IsFinal (sampleState 0 100 100 False)
      \<and> Version (sampleState 1 90 110 False) = Version (sampleState 0 100 100 False) + 1
      \<and> Valid (Allocation (sampleState 1 90 110 False)) = None
      \<and> equalSum (Allocation (sampleState 0 100 100 False)) (Allocation (sampleState 1 90 110 False))
          = Inr True"
    by (simp add: m_acting_def sampleMachine_def sampleState_def sampleParams_def
        Valid_def equalSum_def wellFormed_def rows_def Sum_def)
  have bad: "Version (sampleState 2 90 110 False) \<noteq> Version (sampleState 0 100 100 False) + 1"
    "equalSum (Allocation (sampleState 0 100 100 False)) (Allocation (sampleState 1 90 111 False))
       \<noteq> Inr True"
    by (simp_all add: sampleState_def equalSum_def wellFormed_def rows_def Sum_def)
  show ?thesis
    using cur conds bad
      validTransition_checks [of Valid equalSum "sampleState 1 90 110 False" m_acting]
      validTransition_checks [of Valid equalSum "sampleState 2 90 110 False" m_acting]
      validTransition_checks [of Valid equalSum "sampleState 1 90 111 False" m_acting]
    by (auto simp: prod_eq_iff)
qed

lemma enableStaged_Ok_iff:
  "fst (enableStaged tr m) = Ok () \<longleftrightarrow>
     phase m = From tr \<and> validPhaseTransitions tr
     \<and> (\<exists>st. TxState (stagingTX m) = Some st \<and> ((To tr = Final) = IsFinal st))
     \<and> (\<forall>s \<in> set (Sigs (stagingTX m)). s \<noteq> None)"
proof -
  have e: "(phase m = From tr \<and> validPhaseTransitions tr) = (expect tr m = None)"
    by (simp add: expect_None_iff)
  have g: "(\<forall>s \<in> set (Sigs (stagingTX m)). s \<noteq> None) = (missingSig 0 (Sigs (stagingTX m)) = None)"
    by (simp add: missingSig_None)
  have "fst (enableStaged tr m) = Ok () \<longleftrightarrow>
     expect tr m = None
     \<and> (\<exists>st. TxState (stagingTX m) = Some st \<and> ((To tr = Final) = IsFinal st))
     \<and> missingSig 0 (Sigs (stagingTX m)) = None"
    by (auto simp: enableStaged_def split: option.splits)
  then show ?thesis
    using e g by blast
qed

text \<open>
  C4. \<open>EnableInit\<close>, \<open>EnableUpdate\<close> and \<open>EnableFinal\<close> succeed exactly from \<open>InitSigning\<close>,
  \<open>Signing\<close> and \<open>Signing\<close> with every signature slot of the staging transaction
  filled and a staging state that is final for \<open>EnableFinal\<close> and not final for the
  other two. On success the old current transaction is appended to \<open>prevTXs\<close>, the
  staging transaction becomes the current one, the staging transaction is cleared
  and the phase is \<open>Funding\<close>, \<open>Acting\<close> and \<open>Final\<close>. On any failure the machine is
  unchanged.
\<close>

theorem enable_promotes_staging:
  "promotes (PhaseTransition InitSigning Funding) m (EnableInit m)
   \<and> promotes (PhaseTransition Signing Acting) m (EnableUpdate m)
   \<and> promotes (PhaseTransition Signing Final) m (EnableFinal m)
   \<and> (fst (EnableFinal m) = Ok () \<longrightarrow> (\<exists>st. TxState (stagingTX m) = Some st \<and> IsFinal st))
   \<and> (fst (EnableInit m) = Ok () \<longleftrightarrow>
        phase m = InitSigning
        \<and> (\<exists>st. TxState (stagingTX m) = Some st \<and> \<not> IsFinal st)
        \<and> (\<forall>s \<in> set (Sigs (stagingTX m)). s \<noteq> None))
   \<and> (fst (EnableUpdate m) = Ok () \<longleftrightarrow>
        phase m = Signing
        \<and> (\<exists>st. TxState (stagingTX m) = Some st \<and> \<not> IsFinal st)
        \<and> (\<forall>s \<in> set (Sigs (stagingTX m)). s \<noteq> None))
   \<and> (fst (EnableFinal m) = Ok () \<longleftrightarrow>
        phase m = Signing
        \<and> (\<exists>st. TxState (stagingTX m) = Some st \<and> IsFinal st)
        \<and> (\<forall>s \<in> set (Sigs (stagingTX m)). s \<noteq> None))"
proof -
  have a: "fst (EnableInit m) = Ok () \<longleftrightarrow>
        phase m = InitSigning
        \<and> (\<exists>st. TxState (stagingTX m) = Some st \<and> \<not> IsFinal st)
        \<and> (\<forall>s \<in> set (Sigs (stagingTX m)). s \<noteq> None)"
    by (simp add: EnableInit_def enableStaged_Ok_iff enable_transitions_valid)
  have b: "fst (EnableUpdate m) = Ok () \<longleftrightarrow>
        phase m = Signing
        \<and> (\<exists>st. TxState (stagingTX m) = Some st \<and> \<not> IsFinal st)
        \<and> (\<forall>s \<in> set (Sigs (stagingTX m)). s \<noteq> None)"
    by (simp add: EnableUpdate_def enableStaged_Ok_iff enable_transitions_valid)
  have c: "fst (EnableFinal m) = Ok () \<longleftrightarrow>
        phase m = Signing
        \<and> (\<exists>st. TxState (stagingTX m) = Some st \<and> IsFinal st)
        \<and> (\<forall>s \<in> set (Sigs (stagingTX m)). s \<noteq> None)"
    by (simp add: EnableFinal_def enableStaged_Ok_iff enable_transitions_valid)
  have d: "promotes (PhaseTransition InitSigning Funding) m (EnableInit m)
      \<and> promotes (PhaseTransition Signing Acting) m (EnableUpdate m)
      \<and> promotes (PhaseTransition Signing Final) m (EnableFinal m)"
    by (simp add: EnableInit_def EnableUpdate_def EnableFinal_def promotes_enableStaged)
  from c have e: "fst (EnableFinal m) = Ok () \<longrightarrow>
      (\<exists>st. TxState (stagingTX m) = Some st \<and> IsFinal st)"
    by blast
  show ?thesis using a b c d e by blast
qed

theorem enable_promotes_staging_witness:
  "fst (EnableInit m_initsigning) = Ok ()
   \<and> phase (snd (EnableInit m_initsigning)) = Funding
   \<and> currentTX (snd (EnableInit m_initsigning)) = stagingTX m_initsigning
   \<and> stagingTX (snd (EnableInit m_initsigning)) = emptyTX
   \<and> prevTXs (snd (EnableInit m_initsigning)) = [currentTX m_initsigning]
   \<and> fst (EnableUpdate (m_signing False [Some [1], Some [2]])) = Ok ()
   \<and> phase (snd (EnableUpdate (m_signing False [Some [1], Some [2]]))) = Acting
   \<and> currentTX (snd (EnableUpdate (m_signing False [Some [1], Some [2]])))
       = stagingTX (m_signing False [Some [1], Some [2]])
   \<and> stagingTX (snd (EnableUpdate (m_signing False [Some [1], Some [2]]))) = emptyTX
   \<and> prevTXs (snd (EnableUpdate (m_signing False [Some [1], Some [2]])))
       = [currentTX (m_signing False [Some [1], Some [2]])]
   \<and> notified (snd (EnableUpdate (m_signing False [Some [1], Some [2]])))
       = [(3, PhaseTransition Signing Acting)]
   \<and> fst (EnableFinal (m_signing True [Some [1], Some [2]])) = Ok ()
   \<and> phase (snd (EnableFinal (m_signing True [Some [1], Some [2]]))) = Final
   \<and> currentTX (snd (EnableFinal (m_signing True [Some [1], Some [2]])))
       = stagingTX (m_signing True [Some [1], Some [2]])
   \<and> snd (EnableUpdate (m_signing False [Some [1], None])) = m_signing False [Some [1], None]
   \<and> snd (EnableInit (m_signing False [Some [1], Some [2]])) = m_signing False [Some [1], Some [2]]
   \<and> snd (EnableFinal (m_signing False [Some [1], Some [2]])) = m_signing False [Some [1], Some [2]]"
proof -
  let ?mi = m_initsigning
  let ?mu = "m_signing False [Some [1], Some [2]]"
  let ?mf = "m_signing True [Some [1], Some [2]]"
  let ?mg = "m_signing False [Some [1], None]"
  note init = enable_promotes_staging [of ?mi]
  note upd = enable_promotes_staging [of ?mu]
  note fin = enable_promotes_staging [of ?mf]
  note gap = enable_promotes_staging [of ?mg]
  have ci: "phase ?mi = InitSigning
      \<and> (\<exists>st. TxState (stagingTX ?mi) = Some st \<and> \<not> IsFinal st)
      \<and> (\<forall>s \<in> set (Sigs (stagingTX ?mi)). s \<noteq> None)"
    by (simp add: m_initsigning_def sampleMachine_def sampleState_def)
  have cu: "phase ?mu = Signing
      \<and> (\<exists>st. TxState (stagingTX ?mu) = Some st \<and> \<not> IsFinal st)
      \<and> (\<forall>s \<in> set (Sigs (stagingTX ?mu)). s \<noteq> None)"
    by (simp add: m_signing_def sampleMachine_def sampleState_def)
  have cf: "phase ?mf = Signing
      \<and> (\<exists>st. TxState (stagingTX ?mf) = Some st \<and> IsFinal st)
      \<and> (\<forall>s \<in> set (Sigs (stagingTX ?mf)). s \<noteq> None)"
    by (simp add: m_signing_def sampleMachine_def sampleState_def)
  have ng: "\<not> (\<forall>s \<in> set (Sigs (stagingTX ?mg)). s \<noteq> None)"
    by (simp add: m_signing_def sampleMachine_def)
  have nu: "phase ?mu \<noteq> InitSigning"
    "\<not> (\<exists>st. TxState (stagingTX ?mu) = Some st \<and> IsFinal st)"
    by (simp_all add: m_signing_def sampleMachine_def sampleState_def)
  have ok: "fst (EnableInit ?mi) = Ok ()" "fst (EnableUpdate ?mu) = Ok ()"
    "fst (EnableFinal ?mf) = Ok ()"
    using init ci upd cu fin cf by blast+
  have no: "fst (EnableUpdate ?mg) \<noteq> Ok ()" "fst (EnableInit ?mu) \<noteq> Ok ()"
    "fst (EnableFinal ?mu) \<noteq> Ok ()"
    using gap ng upd nu by blast+
  note pi = init [THEN conjunct1]
  note pu = upd [THEN conjunct2, THEN conjunct1]
  note pf = fin [THEN conjunct2, THEN conjunct2, THEN conjunct1]
  note pg = gap [THEN conjunct2, THEN conjunct1]
  note pui = upd [THEN conjunct1]
  note puf = upd [THEN conjunct2, THEN conjunct2, THEN conjunct1]
  have si: "snd (EnableInit ?mi) = ?mi\<lparr>phase := Funding, stagingTX := emptyTX,
        currentTX := stagingTX ?mi, prevTXs := prevTXs ?mi @ [currentTX ?mi],
        notified := notified ?mi
          @ map (\<lambda>(who, sub). (sub, PhaseTransition (phase ?mi) Funding)) (subs ?mi Funding)\<rparr>"
    using pi ok(1) by (simp add: promotes_def)
  have su: "snd (EnableUpdate ?mu) = ?mu\<lparr>phase := Acting, stagingTX := emptyTX,
        currentTX := stagingTX ?mu, prevTXs := prevTXs ?mu @ [currentTX ?mu],
        notified := notified ?mu
          @ map (\<lambda>(who, sub). (sub, PhaseTransition (phase ?mu) Acting)) (subs ?mu Acting)\<rparr>"
    using pu ok(2) by (simp add: promotes_def)
  have sf: "snd (EnableFinal ?mf) = ?mf\<lparr>phase := Final, stagingTX := emptyTX,
        currentTX := stagingTX ?mf, prevTXs := prevTXs ?mf @ [currentTX ?mf],
        notified := notified ?mf
          @ map (\<lambda>(who, sub). (sub, PhaseTransition (phase ?mf) Final)) (subs ?mf Final)\<rparr>"
    using pf ok(3) by (simp add: promotes_def)
  have same: "snd (EnableUpdate ?mg) = ?mg" "snd (EnableInit ?mu) = ?mu"
    "snd (EnableFinal ?mu) = ?mu"
    using pg pui puf no by (simp_all add: promotes_def)
  have fields: "prevTXs ?mi = []" "prevTXs ?mu = []" "notified ?mu = []"
    "subs ?mu Acting = [(''funder'', 3)]" "phase ?mu = Signing"
    by (simp_all add: m_initsigning_def m_signing_def sampleMachine_def)
  show ?thesis
    unfolding si su sf same
    using ok fields by simp
qed

text \<open>
  C5. In a signing phase and with \<open>i\<close> in range, \<open>AddSig i sg\<close> succeeds exactly when
  slot \<open>i\<close> of the staging signatures is empty and \<open>sg\<close> verifies for \<open>Parts[i]\<close> on the
  staging state; on success the only change is that slot \<open>i\<close> holds \<open>sg\<close>; otherwise an
  error is returned and the machine is unchanged. Outside a signing phase the call
  returns a phase-transition error. In a signing phase an index beyond the
  signature slots panics, and so does an index of an empty slot beyond the
  participants.
\<close>

theorem AddSig_contract:
  "(inPhase (phase m) signingPhases \<and> unat i < length (Sigs (stagingTX m))
      \<and> unat i < length (Parts (params m)) \<longrightarrow>
        (fst (AddSig Verify i sg m) = Ok () \<longleftrightarrow>
           Sigs (stagingTX m) ! unat i = None
         \<and> Verify (Parts (params m) ! unat i) (params m) (TxState (stagingTX m)) sg = Inr True)
      \<and> (fst (AddSig Verify i sg m) = Ok () \<longrightarrow>
           snd (AddSig Verify i sg m)
             = m\<lparr>stagingTX := (stagingTX m)\<lparr>Sigs := (Sigs (stagingTX m))[unat i := sg]\<rparr>\<rparr>)
      \<and> (fst (AddSig Verify i sg m) \<noteq> Ok () \<longrightarrow>
           (\<exists>e. fst (AddSig Verify i sg m) = Err e) \<and> snd (AddSig Verify i sg m) = m))
   \<and> (\<not> inPhase (phase m) signingPhases \<longrightarrow> rejects m (selfTransition m) (AddSig Verify i sg m))
   \<and> (inPhase (phase m) signingPhases \<and> \<not> unat i < length (Sigs (stagingTX m)) \<longrightarrow>
        AddSig Verify i sg m = (Panic, m))
   \<and> (inPhase (phase m) signingPhases \<and> unat i < length (Sigs (stagingTX m))
        \<and> Sigs (stagingTX m) ! unat i = None \<and> \<not> unat i < length (Parts (params m)) \<longrightarrow>
        AddSig Verify i sg m = (Panic, m))"
  by (auto simp: AddSig_def rejects_def error_def split: sum.splits)

theorem AddSig_contract_witness:
  "AddSig sampleVerify 1 (Some [2]) (m_signing False [Some [1], None])
     = (Ok (), m_signing False [Some [1], Some [2]])
   \<and> (\<exists>e. fst (AddSig sampleVerify 1 (Some [3]) (m_signing False [Some [1], None])) = Err e)
   \<and> snd (AddSig sampleVerify 1 (Some [3]) (m_signing False [Some [1], None]))
       = m_signing False [Some [1], None]
   \<and> (\<exists>e. fst (AddSig sampleVerify 0 (Some [1]) (m_signing False [Some [1], None])) = Err e)
   \<and> rejects m_acting (PhaseTransition Acting Acting) (AddSig sampleVerify 1 (Some [2]) m_acting)
   \<and> AddSig sampleVerify 2 (Some [2]) (m_signing False [Some [1], None])
       = (Panic, m_signing False [Some [1], None])
   \<and> AddSig sampleVerify 2 (Some [2]) (m_signing False [Some [1], None, None])
       = (Panic, m_signing False [Some [1], None, None])"
  using AddSig_contract [of "m_signing False [Some [1], None]" 1 sampleVerify "Some [2]"]
    AddSig_contract [of "m_signing False [Some [1], None]" 1 sampleVerify "Some [3]"]
    AddSig_contract [of "m_signing False [Some [1], None]" 0 sampleVerify "Some [1]"]
    AddSig_contract [of m_acting 1 sampleVerify "Some [2]"]
    AddSig_contract [of "m_signing False [Some [1], None]" 2 sampleVerify "Some [2]"]
    AddSig_contract [of "m_signing False [Some [1], None, None]" 2 sampleVerify "Some [2]"]
  by (simp add: prod_eq_iff m_signing_def m_acting_def sampleMachine_def sampleParams_def
      sampleVerify_def signingPhases_def selfTransition_def)

text \<open>
  C7. In a signing phase \<open>Sig\<close> returns the signature made by the signer on the
  staging state and stores it in slot \<open>idx\<close>; when the slot is filled it returns the
  stored signature and leaves the machine as it is. After a successful call, a second
  call returns the same signature and the same machine whatever the signer would
  answer: nothing is signed again. Outside a signing phase \<open>Sig\<close> returns a
  phase-transition error and changes nothing.
\<close>

theorem Sig_memoized:
  "(inPhase (phase m) signingPhases \<and> unat (idx m) < length (Sigs (stagingTX m)) \<longrightarrow>
      (Sigs (stagingTX m) ! unat (idx m) = None
         \<and> Sign (acc m) (params m) (TxState (stagingTX m)) = Inr sg \<longrightarrow>
           Sig Sign m = (Ok sg, m\<lparr>stagingTX := (stagingTX m)
                           \<lparr>Sigs := (Sigs (stagingTX m))[unat (idx m) := Some sg]\<rparr>\<rparr>))
    \<and> (Sigs (stagingTX m) ! unat (idx m) = Some sg \<longrightarrow> Sig Sign m = (Ok sg, m))
    \<and> (Sig Sign m = (Ok sg, m') \<longrightarrow>
           Sigs (stagingTX m') ! unat (idx m') = Some sg \<and> Sig Sign' m' = (Ok sg, m')))
   \<and> (\<not> inPhase (phase m) signingPhases \<longrightarrow> rejects m (selfTransition m) (Sig Sign m))"
  by (auto simp: Sig_def rejects_def error_def split: sum.splits option.splits)

theorem Sig_memoized_witness:
  "Sig sampleSign (m_signing False [None, None]) = (Ok [1], m_signing False [Some [1], None])
   \<and> Sig (\<lambda>a p s. Inl (External ''no signer'')) (m_signing False [Some [1], None])
       = (Ok [1], m_signing False [Some [1], None])
   \<and> rejects m_acting (PhaseTransition Acting Acting) (Sig sampleSign m_acting)"
proof -
  let ?m = "m_signing False [None, None]"
  let ?m' = "m_signing False [Some [1], None]"
  have pre: "inPhase (phase ?m) signingPhases \<and> unat (idx ?m) < length (Sigs (stagingTX ?m))"
    by (simp add: m_signing_def sampleMachine_def signingPhases_def)
  have empty: "Sigs (stagingTX ?m) ! unat (idx ?m) = None
      \<and> sampleSign (acc ?m) (params ?m) (TxState (stagingTX ?m)) = Inr [1]"
    by (simp add: m_signing_def sampleMachine_def sampleSign_def)
  have upd: "?m\<lparr>stagingTX := (stagingTX ?m)\<lparr>Sigs := (Sigs (stagingTX ?m))[unat (idx ?m) := Some [1]]\<rparr>\<rparr> = ?m'"
    by (simp add: m_signing_def sampleMachine_def)
  have first: "Sig sampleSign ?m = (Ok [1], ?m')"
    using Sig_memoized [of ?m sampleSign "[1]"] pre empty upd by metis
  have second: "Sig (\<lambda>a p s. Inl (External ''no signer'')) ?m' = (Ok [1], ?m')"
    using Sig_memoized [of ?m sampleSign "[1]" ?m' "\<lambda>a p s. Inl (External ''no signer'')"]
      pre first by blast
  have out: "\<not> inPhase (phase m_acting) signingPhases"
    by (simp add: m_acting_def sampleMachine_def signingPhases_def)
  have third: "rejects m_acting (PhaseTransition Acting Acting) (Sig sampleSign m_acting)"
    using Sig_memoized [of m_acting sampleSign] out
    by (simp add: selfTransition_def m_acting_def sampleMachine_def)
  show ?thesis using first second third by simp
qed

text \<open>
  C10. When the staging state is final, \<open>EnableInit\<close> and \<open>EnableUpdate\<close> fail with a
  phase-transition error; when it is not final, \<open>EnableFinal\<close> fails with one; the
  machine is unchanged in both cases. A promotion that succeeds has a target phase
  that is \<open>Final\<close> exactly when the staging state is final.
\<close>

theorem IsFinal_matches_target:
  assumes "TxState (stagingTX m) = Some st"
  shows "(IsFinal st \<longrightarrow> failsPhase m (EnableInit m) \<and> failsPhase m (EnableUpdate m))
       \<and> (\<not> IsFinal st \<longrightarrow> failsPhase m (EnableFinal m))
       \<and> (fst (enableStaged tr m) = Ok () \<longrightarrow> ((To tr = Final) \<longleftrightarrow> IsFinal st))"
  using assms failsPhase_enableStaged [of m st] enableStaged_Ok_final [of tr m]
  by (auto simp: EnableInit_def EnableUpdate_def EnableFinal_def)

theorem IsFinal_matches_target_witness:
  "failsPhase (m_signing True [Some [1], Some [2]]) (EnableUpdate (m_signing True [Some [1], Some [2]]))
   \<and> failsPhase (m_signing True [Some [1], Some [2]]) (EnableInit (m_signing True [Some [1], Some [2]]))
   \<and> failsPhase (m_signing False [Some [1], Some [2]]) (EnableFinal (m_signing False [Some [1], Some [2]]))
   \<and> fst (enableStaged (PhaseTransition Signing Final) (m_signing True [Some [1], Some [2]])) = Ok ()
   \<and> fst (enableStaged (PhaseTransition Signing Acting) (m_signing False [Some [1], Some [2]])) = Ok ()"
proof -
  have ok: "fst (enableStaged (PhaseTransition Signing Final) (m_signing True [Some [1], Some [2]])) = Ok ()"
    "fst (enableStaged (PhaseTransition Signing Acting) (m_signing False [Some [1], Some [2]])) = Ok ()"
    by (simp_all add: enableStaged_def expect_def
        validPhaseTransitions_def m_signing_def sampleMachine_def sampleState_def)
  show ?thesis
    using ok
      IsFinal_matches_target [of "m_signing True [Some [1], Some [2]]" "sampleState 1 90 110 True"]
      IsFinal_matches_target [of "m_signing False [Some [1], Some [2]]" "sampleState 1 90 110 False"]
    by (simp add: m_signing_def sampleMachine_def sampleState_def)
qed

section \<open>Properties of the update protocol\<close>

lemma replicate_two: "replicate 2 x = [x, x]"
  by (simp add: numeral_2_eq_2)

lemma N_sample [simp]: "unat (N (sampleMachine p s c)) = 2"
  by (simp add: N_def sampleMachine_def sampleParams_def)

lemma StateMachine_Update_sample:
  "StateMachine_Update Valid equalSum sampleApp (sampleState 1 90 110 False) 0 m_acting
     = (Ok (), m_signing False [None, None])"
proof -
  have "fst (validTransition Valid equalSum (sampleState 1 90 110 False) m_acting) = Ok ()"
    by (simp add: validTransition_def m_acting_def sampleMachine_def sampleState_def
        sampleParams_def Valid_def equalSum_def wellFormed_def rows_def Sum_def)
  moreover have "setStaging Signing (sampleState 1 90 110 False) m_acting
      = m_signing False [None, None]"
    unfolding setStaging_def m_acting_def N_sample replicate_two
    by (simp add: m_signing_def sampleMachine_def setPhase_def notifySubs_def)
  moreover have "expect (PhaseTransition Acting Signing) m_acting = None"
    by (simp add: expect_def validPhaseTransitions_def m_acting_def sampleMachine_def)
  moreover have "TxState (currentTX m_acting) = Some (sampleState 0 100 100 False)"
    by (simp add: m_acting_def sampleMachine_def)
  ultimately show ?thesis
    by (simp add: StateMachine_Update_def sampleApp_def)
qed

lemma Sig_sample:
  "Sig sampleSign (m_signing False [None, None]) = (Ok [1], m_signing False [Some [1], None])"
  by (simp add: Sig_def signingPhases_def m_signing_def sampleMachine_def sampleSign_def)

lemma Update_concrete:
  "Channel_Update Valid equalSum sampleApp sampleSign
      \<lparr>UpState = Some (sampleState 1 90 110 False), ActorIdx = 0\<rparr> (sampleChannel [peerAcc])
   = (Ok (),
      \<lparr>conn = \<lparr>receiver = \<lparr>msgs = [peerAcc], capacity = receiverBufferSize, closed = False\<rparr>,
               broadcaster = \<lparr>delivered = [MsgUpdateAcc \<lparr>ChannelID = 7, AccVersion = 1, AccSig = [1]\<rparr>],
                              failure = None\<rparr>,
               peerIdx = [(5, 1)]\<rparr>,
       machine = m_signing False [Some [1], None]\<rparr>)"
proof -
  have a: "validTwoPartyUpdate \<lparr>UpState = Some (sampleState 1 90 110 False), ActorIdx = 0\<rparr>
      (idx m_acting) = Ok ()"
    by (simp add: validTwoPartyUpdate_def m_acting_def sampleMachine_def sampleState_def)
  have b: "machine (sampleChannel [peerAcc]) = m_acting"
    by (simp add: sampleChannel_def)
  show ?thesis
    unfolding Channel_Update_def a b
    by (simp add: StateMachine_Update_sample Sig_sample send_def Send_def)
      (simp add: sampleChannel_def m_signing_def sampleMachine_def sampleParams_def
        sampleState_def)
qed

lemma phase_Sig: "phase (snd (Sig Sign m)) = phase m"
  by (simp add: Sig_def split: option.splits sum.splits)

lemma StateMachine_Update_Ok:
  "StateMachine_Update V E A st actor m = (Ok u, m1) \<Longrightarrow> phase m1 = Signing"
  by (auto simp: StateMachine_Update_def setStaging_def
      split: option.splits outcome.splits)

lemma send_None:
  "send msg cn = (None, cn') \<Longrightarrow>
     receiver cn' = receiver cn \<and> delivered (broadcaster cn') = delivered (broadcaster cn) @ [msg]"
  by (auto simp: send_def Send_def split: option.splits)

lemma Channel_Update_Ok:
  assumes "Channel_Update V E A Sign up c = (Ok (), c')"
  shows "phase (machine c') = Signing
       \<and> receiver (conn c') = receiver (conn c)
       \<and> (\<exists>a. delivered (broadcaster (conn c')) = delivered (broadcaster (conn c)) @ [MsgUpdateAcc a])"
proof -
  from assms obtain st m1 sg m2 cn a where
    up: "StateMachine_Update V E A st (ActorIdx up) (machine c) = (Ok (), m1)"
    and sg: "Sig Sign m1 = (Ok sg, m2)"
    and sn: "send (MsgUpdateAcc a) (conn c) = (None, cn)"
    and c': "c' = c\<lparr>machine := m2, conn := cn\<rparr>"
    by (auto simp: Channel_Update_def Let_def
        split: outcome.splits option.splits prod.splits)
  have "phase m2 = Signing"
    using StateMachine_Update_Ok [OF up] phase_Sig [of Sign m1] sg by simp
  then show ?thesis
    using send_None [OF sn] c' by auto
qed

text \<open>
  C1. The claim describes the proposer side of an update as: send a \<open>ChannelUpdate\<close>
  message, await one reply, and on a matching acceptance add the peer's signature
  and call \<open>EnableUpdate\<close>, reaching \<open>Acting\<close>. \<open>Channel.Update\<close> as written sends a
  \<open>msgChannelUpdateAcc\<close> and returns at once. On a two-party channel in \<open>Acting\<close> at
  version 0, with the peer's acceptance already waiting in the receiver, an update to
  version 1 returns without error, having sent an acceptance message, left the
  peer's message in the queue, and left the machine in \<open>Signing\<close> with the peer's
  slot empty and the old current transaction. The next update on this channel fails
  with a phase-transition error.
\<close>

theorem Channel_Update_returns_unfinished:
  "fst (Channel_Update Valid equalSum sampleApp sampleSign
          \<lparr>UpState = Some (sampleState 1 90 110 False), ActorIdx = 0\<rparr> (sampleChannel [peerAcc]))
     = Ok ()
   \<and> delivered (broadcaster (conn (snd (Channel_Update Valid equalSum sampleApp sampleSign
          \<lparr>UpState = Some (sampleState 1 90 110 False), ActorIdx = 0\<rparr> (sampleChannel [peerAcc])))))
     = [MsgUpdateAcc \<lparr>ChannelID = 7, AccVersion = 1, AccSig = [1]\<rparr>]
   \<and> msgs (receiver (conn (snd (Channel_Update Valid equalSum sampleApp sampleSign
          \<lparr>UpState = Some (sampleState 1 90 110 False), ActorIdx = 0\<rparr> (sampleChannel [peerAcc])))))
     = [peerAcc]
   \<and> machine (snd (Channel_Update Valid equalSum sampleApp sampleSign
          \<lparr>UpState = Some (sampleState 1 90 110 False), ActorIdx = 0\<rparr> (sampleChannel [peerAcc])))
     = m_signing False [Some [1], None]
   \<and> phase (m_signing False [Some [1], None]) = Signing
   \<and> currentTX (m_signing False [Some [1], None]) = currentTX m_acting
   \<and> (\<exists>e. fst (Channel_Update Valid equalSum sampleApp sampleSign
          \<lparr>UpState = Some (sampleState 2 80 120 False), ActorIdx = 0\<rparr>
          (snd (Channel_Update Valid equalSum sampleApp sampleSign
             \<lparr>UpState = Some (sampleState 1 90 110 False), ActorIdx = 0\<rparr> (sampleChannel [peerAcc]))))
        = Err e \<and> IsPhaseTransitionError e)"
proof -
  have second: "\<exists>e. fst (Channel_Update Valid equalSum sampleApp sampleSign
          \<lparr>UpState = Some (sampleState 2 80 120 False), ActorIdx = 0\<rparr>
          \<lparr>conn = cn, machine = m_signing False [Some [1], None]\<rparr>) = Err e
        \<and> IsPhaseTransitionError e" for cn
    by (simp add: Channel_Update_def validTwoPartyUpdate_def StateMachine_Update_def expect_def
        error_def m_signing_def sampleMachine_def sampleState_def)
  show ?thesis
    unfolding Update_concrete
    using second by (simp add: m_signing_def m_acting_def sampleMachine_def)
qed

section \<open>Properties of the responders\<close>

lemma propCalled_again: "propCalled r \<Longrightarrow> r\<lparr>propCalled := True\<rparr> = r"
  by (cases r) simp

lemma upCalled_again: "upCalled r \<Longrightarrow> r\<lparr>upCalled := True\<rparr> = r"
  by (cases r) simp

lemma proposalCalls_called:
  "propCalled r \<Longrightarrow>
     proposalCalls serve cs r = (replicate (length cs) Panic, r)"
proof (induction cs)
  case Nil
  then show ?case by simp
next
  case (Cons c cs)
  then show ?case
    by (cases c)
      (simp_all add: ProposalResponder_Accept_def ProposalResponder_Reject_def TrySet_def
        propCalled_again)
qed

lemma updateCalls_called:
  "upCalled r \<Longrightarrow> updateCalls serve cs r = (replicate (length cs) Panic, r)"
proof (induction cs)
  case Nil
  then show ?case by simp
next
  case (Cons c cs)
  then show ?case
    by (cases c)
      (simp_all add: UpdateResponder_Accept_def UpdateResponder_Reject_def TrySet_def
        upCalled_again)
qed

text \<open>
  C6. On a fresh \<open>ProposalResponder\<close> and on a fresh \<open>UpdateResponder\<close>, whatever the
  calls of \<open>Accept\<close> and \<open>Reject\<close> and whatever their order: the first call hands its
  answer to the protocol side and returns what the protocol side reports, every
  later call panics, and the protocol side receives the first answer only.
\<close>

theorem responder_used_once:
  "proposalCalls serve (c # cs) newProposalResponder
     = (returned (serve c) # replicate (length cs) Panic, \<lparr>propHanded = [c], propCalled = True\<rparr>)
   \<and> updateCalls serve' (u # us) newUpdateResponder
     = (returned (serve' u) # replicate (length us) Panic, \<lparr>upHanded = [u], upCalled = True\<rparr>)"
proof -
  have p: "proposalCalls serve (c # cs) newProposalResponder
     = (returned (serve c) # replicate (length cs) Panic, \<lparr>propHanded = [c], propCalled = True\<rparr>)"
    by (cases c)
      (simp_all add: ProposalResponder_Accept_def ProposalResponder_Reject_def TrySet_def
        newProposalResponder_def proposalCalls_called)
  have u: "updateCalls serve' (u # us) newUpdateResponder
     = (returned (serve' u) # replicate (length us) Panic, \<lparr>upHanded = [u], upCalled = True\<rparr>)"
    by (cases u)
      (simp_all add: UpdateResponder_Accept_def UpdateResponder_Reject_def TrySet_def
        newUpdateResponder_def updateCalls_called)
  show ?thesis using p u by simp
qed

theorem responder_used_once_witness:
  "fst (proposalCalls (handleChannelProposal (\<lambda>m. None) 11)
          [ctxProposalAcc \<lparr>Participant = Some \<lparr>address = [2], secret = [43]\<rparr>\<rparr>,
           ctxProposalRej ''too late'',
           ctxProposalAcc \<lparr>Participant = Some \<lparr>address = [2], secret = [43]\<rparr>\<rparr>]
          newProposalResponder)
     = [Ok (), Panic, Panic]
   \<and> fst (updateCalls (\<lambda>a. None) [ctxUpdateRej ''too large'', ctxUpdateAcc] newUpdateResponder)
     = [Ok (), Panic]"
  using responder_used_once [of "handleChannelProposal (\<lambda>m. None) 11"
      "ctxProposalAcc \<lparr>Participant = Some \<lparr>address = [2], secret = [43]\<rparr>\<rparr>"
      "[ctxProposalRej ''too late'',
        ctxProposalAcc \<lparr>Participant = Some \<lparr>address = [2], secret = [43]\<rparr>\<rparr>]"
      "\<lambda>a. None" "ctxUpdateRej ''too large''" "[ctxUpdateAcc]"]
  by (simp add: returned_def handleChannelProposal_def)

section \<open>Properties of the receiver\<close>

declare select2.simps [simp del]

lemma pick_single [simp]: "pick ch [k] = k"
  by (simp add: pick_def)




























lemma Put_fills_to_capacity:
  "length (msgs (fold runOp (replicate 17 (DoPut (\<lambda>ready. 0) peerAcc)) NewReceiver)) = 16"
  by (simp add: eval_nat_numeral Put_def NewReceiver_def receiverBufferSize_def)

section \<open>Properties of the serialization\<close>

lemma length_be_bytes [simp]: "length (be_bytes n v) = n"
  by (induction n arbitrary: v) simp_all

lemma be_nat_snoc: "be_nat (bs @ [b]) = be_nat bs * 256 + unat b"
  by (simp add: be_nat_def)

lemma unat_byte_of_mod: "unat (of_nat (v mod 256) :: byte) = v mod 256"
  by (simp add: unat_of_nat)

lemma be_nat_be_bytes: "v < 256 ^ n \<Longrightarrow> be_nat (be_bytes n v) = v"
proof (induction n arbitrary: v)
  case 0
  then show ?case by (simp add: be_nat_def)
next
  case (Suc n)
  from Suc.prems have "v div 256 < 256 ^ n"
    by (simp add: less_mult_imp_div_less mult.commute)
  then have "be_nat (be_bytes n (v div 256)) = v div 256"
    by (rule Suc.IH)
  then show ?case
    by (simp add: be_nat_snoc unat_byte_of_mod)
qed

lemma readBytes_append:
  "length bs = n \<Longrightarrow> readBytes n (bs @ rest) = Inr (bs, rest)"
  by (simp add: readBytes_def)

lemma roundtrips_Uint16: "roundtrips encodeUint16 decodeUint16 v"
proof -
  have "unat v < 256 ^ 2"
    using unsigned_less [of v, where 'a = nat] by simp
  then have "be_nat (be_bytes 2 (unat v)) = unat v"
    by (rule be_nat_be_bytes)
  then have "decodeUint16 (be_bytes 2 (unat v) @ rest) = Inr (v, rest)" for rest
    by (simp add: decodeUint16_def readBytes_append)
  then show ?thesis
    unfolding roundtrips_def encodeUint16_def writeBytes_def by blast
qed

lemma roundtrips_Uint64: "roundtrips encodeUint64 decodeUint64 v"
proof -
  have "unat v < 256 ^ 8"
    using unsigned_less [of v, where 'a = nat] by simp
  then have "be_nat (be_bytes 8 (unat v)) = unat v"
    by (rule be_nat_be_bytes)
  then have "decodeUint64 (be_bytes 8 (unat v) @ rest) = Inr (v, rest)" for rest
    by (simp add: decodeUint64_def readBytes_append)
  then show ?thesis
    unfolding roundtrips_def encodeUint64_def writeBytes_def by blast
qed

lemma roundtrips_ID: "roundtrips encodeID decodeID v"
proof -
  have "unat v < 256 ^ 32"
    using unsigned_less [of v, where 'a = nat] by simp
  then have "be_nat (be_bytes 32 (unat v)) = unat v"
    by (rule be_nat_be_bytes)
  then have "decodeID (be_bytes 32 (unat v) @ rest) = Inr (v, rest)" for rest
    by (simp add: decodeID_def readBytes_append)
  then show ?thesis
    unfolding roundtrips_def encodeID_def writeBytes_def by blast
qed

lemma char_byte_char: "char_of (unat (of_nat (of_char c) :: byte)) = c"
proof -
  have "(of_char c :: nat) < 256" by simp
  then have "unat (of_nat (of_char c) :: byte) = of_char c"
    by (simp add: unat_of_nat)
  then show ?thesis by simp
qed

lemma roundtrips_String:
  assumes "length s < 65536"
  shows "roundtrips encodeString decodeString s"
proof -
  let ?body = "map (\<lambda>c. of_nat (of_char c) :: byte) s"
  let ?bs = "be_bytes 2 (length s) @ ?body"
  have "length s < 256 ^ 2" using assms by simp
  then have len: "be_nat (be_bytes 2 (length s)) = length s"
    by (rule be_nat_be_bytes)
  have chars: "map (\<lambda>b. char_of (unat b)) ?body = s"
    by (induction s) (simp_all add: char_byte_char)
  have "decodeString (?bs @ rest) = Inr (s, rest)" for rest
    by (simp add: decodeString_def readBytes_append len chars del: map_map)
  moreover have "encodeString s w = (Ok (), w @ ?bs)" for w
    using assms by (simp add: encodeString_def writeBytes_def)
  ultimately show ?thesis
    unfolding roundtrips_def by blast
qed

lemma roundtrips_Sig:
  "length sg = SigLen \<Longrightarrow> roundtrips encodeSig (DecodeSig SigLen) sg"
  unfolding roundtrips_def encodeSig_def writeBytes_def DecodeSig_def
  using readBytes_append [of sg SigLen] by blast

lemma roundtrips_StatePtr:
  "roundtrips encState decState st \<Longrightarrow>
     \<exists>bs. (\<forall>w. encodeStatePtr encState (Some st) w = (Ok (), w @ bs))
        \<and> (\<forall>rest. decState (bs @ rest) = Inr (st, rest))"
  by (simp add: roundtrips_def encodeStatePtr_def)

lemma msgChannelUpdate_roundtrip:
  assumes "roundtrips encState decState st" "length sg = SigLen"
  shows "roundtrips (msgChannelUpdate_Encode encState) (msgChannelUpdate_Decode decState SigLen)
           \<lparr>UpState = Some st, ActorIdx = a, UpSig = sg\<rparr>"
proof -
  from roundtrips_StatePtr [OF assms(1)] obtain b1 where
    e1: "\<And>w. encodeStatePtr encState (Some st) w = (Ok (), w @ b1)"
    and d1: "\<And>rest. decState (b1 @ rest) = Inr (st, rest)" by blast
  from roundtrips_Uint16 [of a] obtain b2 where
    e2: "\<And>w. encodeUint16 a w = (Ok (), w @ b2)"
    and d2: "\<And>rest. decodeUint16 (b2 @ rest) = Inr (a, rest)"
    unfolding roundtrips_def by blast
  from roundtrips_Sig [OF assms(2)] obtain b3 where
    e3: "\<And>w. encodeSig sg w = (Ok (), w @ b3)"
    and d3: "\<And>rest. DecodeSig SigLen (b3 @ rest) = Inr (sg, rest)"
    unfolding roundtrips_def by blast
  have enc: "msgChannelUpdate_Encode encState \<lparr>UpState = Some st, ActorIdx = a, UpSig = sg\<rparr> w
      = (Ok (), w @ (b1 @ b2 @ b3))" for w
    by (simp add: msgChannelUpdate_Encode_def Encode_def e1 e2 e3)
  have dec: "msgChannelUpdate_Decode decState SigLen ((b1 @ b2 @ b3) @ rest)
      = Inr (\<lparr>UpState = Some st, ActorIdx = a, UpSig = sg\<rparr>, rest)" for rest
    by (simp add: msgChannelUpdate_Decode_def decodeAt_def decoded_def d1 d2 d3)
  show ?thesis
    unfolding roundtrips_def using enc dec by blast
qed

lemma msgChannelUpdateAcc_roundtrip:
  assumes "length sg = SigLen"
  shows "roundtrips msgChannelUpdateAcc_Encode (msgChannelUpdateAcc_Decode SigLen)
           \<lparr>ChannelID = i, AccVersion = v, AccSig = sg\<rparr>"
proof -
  from roundtrips_ID [of i] obtain b1 where
    e1: "\<And>w. encodeID i w = (Ok (), w @ b1)"
    and d1: "\<And>rest. decodeID (b1 @ rest) = Inr (i, rest)"
    unfolding roundtrips_def by blast
  from roundtrips_Uint64 [of v] obtain b2 where
    e2: "\<And>w. encodeUint64 v w = (Ok (), w @ b2)"
    and d2: "\<And>rest. decodeUint64 (b2 @ rest) = Inr (v, rest)"
    unfolding roundtrips_def by blast
  from roundtrips_Sig [OF assms] obtain b3 where
    e3: "\<And>w. encodeSig sg w = (Ok (), w @ b3)"
    and d3: "\<And>rest. DecodeSig SigLen (b3 @ rest) = Inr (sg, rest)"
    unfolding roundtrips_def by blast
  have enc: "msgChannelUpdateAcc_Encode \<lparr>ChannelID = i, AccVersion = v, AccSig = sg\<rparr> w
      = (Ok (), w @ (b1 @ b2 @ b3))" for w
    by (simp add: msgChannelUpdateAcc_Encode_def Encode_def e1 e2 e3)
  have dec: "msgChannelUpdateAcc_Decode SigLen ((b1 @ b2 @ b3) @ rest)
      = Inr (\<lparr>ChannelID = i, AccVersion = v, AccSig = sg\<rparr>, rest)" for rest
    by (simp add: msgChannelUpdateAcc_Decode_def decodeAt_def decoded_def d1 d2 d3)
  show ?thesis
    unfolding roundtrips_def using enc dec by blast
qed

lemma msgChannelUpdateRej_roundtrip:
  assumes "roundtrips encState decState st" "length sg = SigLen" "length reason < 65536"
  shows "roundtrips (msgChannelUpdateRej_Encode encState) (msgChannelUpdateRej_Decode decState SigLen)
           \<lparr>Reason = reason, Alt = Some st, RejActorIdx = a, RejSig = sg\<rparr>"
proof -
  from roundtrips_String [OF assms(3)] obtain b0 where
    e0: "\<And>w. encodeString reason w = (Ok (), w @ b0)"
    and d0: "\<And>rest. decodeString (b0 @ rest) = Inr (reason, rest)"
    unfolding roundtrips_def by blast
  from roundtrips_StatePtr [OF assms(1)] obtain b1 where
    e1: "\<And>w. encodeStatePtr encState (Some st) w = (Ok (), w @ b1)"
    and d1: "\<And>rest. decState (b1 @ rest) = Inr (st, rest)" by blast
  from roundtrips_Uint16 [of a] obtain b2 where
    e2: "\<And>w. encodeUint16 a w = (Ok (), w @ b2)"
    and d2: "\<And>rest. decodeUint16 (b2 @ rest) = Inr (a, rest)"
    unfolding roundtrips_def by blast
  from roundtrips_Sig [OF assms(2)] obtain b3 where
    e3: "\<And>w. encodeSig sg w = (Ok (), w @ b3)"
    and d3: "\<And>rest. DecodeSig SigLen (b3 @ rest) = Inr (sg, rest)"
    unfolding roundtrips_def by blast
  have enc: "msgChannelUpdateRej_Encode encState
        \<lparr>Reason = reason, Alt = Some st, RejActorIdx = a, RejSig = sg\<rparr> w
      = (Ok (), w @ (b0 @ b1 @ b2 @ b3))" for w
    by (simp add: msgChannelUpdateRej_Encode_def Encode_def e0 e1 e2 e3)
  have dec: "msgChannelUpdateRej_Decode decState SigLen ((b0 @ b1 @ b2 @ b3) @ rest)
      = Inr (\<lparr>Reason = reason, Alt = Some st, RejActorIdx = a, RejSig = sg\<rparr>, rest)" for rest
    by (simp add: msgChannelUpdateRej_Decode_def decodeAt_def decoded_def d0 d1 d2 d3)
  show ?thesis
    unfolding roundtrips_def using enc dec by blast
qed

lemma roundtrips_sampleState:
  assumes "0 \<le> a" "a < 2 ^ 64" "0 \<le> b" "b < 2 ^ 64"
  shows "roundtrips sampleEncState sampleDecState (sampleState v a b fin)"
proof -
  let ?st = "sampleState v a b fin"
  have ua: "uint (of_int a :: 64 word) = a" "uint (of_int b :: 64 word) = b"
    using assms by (simp_all add: uint_word_of_int take_bit_int_eq_self)
  from roundtrips_ID [of "ID ?st"] obtain b0 where
    e0: "\<And>w. encodeID (ID ?st) w = (Ok (), w @ b0)"
    and d0: "\<And>rest. decodeID (b0 @ rest) = Inr (ID ?st, rest)"
    unfolding roundtrips_def by blast
  from roundtrips_Uint64 [of v] obtain b1 where
    e1: "\<And>w. encodeUint64 v w = (Ok (), w @ b1)"
    and d1: "\<And>rest. decodeUint64 (b1 @ rest) = Inr (v, rest)"
    unfolding roundtrips_def by blast
  from roundtrips_Uint64 [of "of_int a"] obtain b2 where
    e2: "\<And>w. encodeUint64 (of_int a) w = (Ok (), w @ b2)"
    and d2: "\<And>rest. decodeUint64 (b2 @ rest) = Inr (of_int a, rest)"
    unfolding roundtrips_def by blast
  from roundtrips_Uint64 [of "of_int b"] obtain b3 where
    e3: "\<And>w. encodeUint64 (of_int b) w = (Ok (), w @ b3)"
    and d3: "\<And>rest. decodeUint64 (b3 @ rest) = Inr (of_int b, rest)"
    unfolding roundtrips_def by blast
  let ?f = "[if fin then 1 else 0 :: byte]"
  have enc: "sampleEncState ?st w = (Ok (), w @ (b0 @ b1 @ b2 @ b3 @ ?f))" for w
    using e0 by (simp add: sampleEncState_def Encode_def e1 e2 e3 writeBytes_def sampleState_def)
  have dec: "sampleDecState ((b0 @ b1 @ b2 @ b3 @ ?f) @ rest) = Inr (?st, rest)" for rest
    using d0 [of "b1 @ b2 @ b3 @ ?f @ rest"]
    by (simp add: sampleDecState_def decodeAt_def decoded_def d1 d2 d3 readBytes_def ua
        sampleState_def)
  show ?thesis
    unfolding roundtrips_def using enc dec by blast
qed

lemma roundtrips_run:
  "roundtrips enc dec x \<Longrightarrow>
     fst (enc x []) = Ok () \<and> dec (snd (enc x []) @ rest) = Inr (x, rest)"
proof -
  assume "roundtrips enc dec x"
  then obtain bs where e: "\<And>w. enc x w = (Ok (), w @ bs)"
    and d: "\<And>rest. dec (bs @ rest) = Inr (x, rest)"
    unfolding roundtrips_def by blast
  from e [of "[]"] d [of rest] show ?thesis by simp
qed

lemma DecodeSig_length: "DecodeSig SigLen r = Inr (sg, r') \<Longrightarrow> length sg = SigLen"
  by (auto simp: DecodeSig_def readBytes_def split: if_splits)

lemma msgChannelUpdateAcc_Decode_sig_length:
  "msgChannelUpdateAcc_Decode SigLen r = Inr (c, r') \<Longrightarrow> length (AccSig c) = SigLen"
  by (auto simp: msgChannelUpdateAcc_Decode_def dest: DecodeSig_length
      split: sum.splits prod.splits)

text \<open>
  C9. Not every channel-update message survives encoding followed by decoding.
  \<open>DecodeSig\<close> always fills a buffer of \<open>SigLen\<close> bytes, so a message whose signature
  has another length does not come back: an acceptance with a signature of three
  bytes is encoded without error and does not decode to itself.
\<close>

theorem update_messages_roundtrip_counterexample:
  "fst (msgChannelUpdateAcc_Encode \<lparr>ChannelID = 7, AccVersion = 1, AccSig = [1, 2, 3]\<rparr> []) = Ok ()
   \<and> msgChannelUpdateAcc_Decode 65
        (snd (msgChannelUpdateAcc_Encode \<lparr>ChannelID = 7, AccVersion = 1, AccSig = [1, 2, 3]\<rparr> []))
       \<noteq> Inr (\<lparr>ChannelID = 7, AccVersion = 1, AccSig = [1, 2, 3]\<rparr>, [])"
proof -
  have "fst (msgChannelUpdateAcc_Encode \<lparr>ChannelID = 7, AccVersion = 1, AccSig = [1, 2, 3]\<rparr> [])
      = Ok ()"
    by (simp add: msgChannelUpdateAcc_Encode_def Encode_def encodeID_def encodeUint64_def
        encodeSig_def writeBytes_def)
  moreover have "msgChannelUpdateAcc_Decode 65 bs
      \<noteq> Inr (\<lparr>ChannelID = 7, AccVersion = 1, AccSig = [1, 2, 3]\<rparr>, [])" for bs
    using msgChannelUpdateAcc_Decode_sig_length
      [of 65 bs "\<lparr>ChannelID = 7, AccVersion = 1, AccSig = [1, 2, 3]\<rparr>" "[]"]
    by auto
  ultimately show ?thesis by blast
qed

text \<open>
  C9. Each of the three channel-update messages survives encoding
  followed by decoding when it is well formed for the wire, that is when its state
  is present and survives the state codec, its signature has the backend's
  signature length, and its reason fits the length prefix: \<open>Encode\<close> succeeds, and
  the bytes it wrote, followed by anything, decode to a message equal to the
  original and leave what followed.
\<close>

theorem update_messages_roundtrip:
  assumes "roundtrips encState decState st" "length sg = SigLen" "length reason < 65536"
  shows "fst (msgChannelUpdate_Encode encState \<lparr>UpState = Some st, ActorIdx = a, UpSig = sg\<rparr> [])
           = Ok ()
       \<and> msgChannelUpdate_Decode decState SigLen
           (snd (msgChannelUpdate_Encode encState \<lparr>UpState = Some st, ActorIdx = a, UpSig = sg\<rparr> [])
              @ rest)
           = Inr (\<lparr>UpState = Some st, ActorIdx = a, UpSig = sg\<rparr>, rest)
       \<and> fst (msgChannelUpdateAcc_Encode \<lparr>ChannelID = i, AccVersion = v, AccSig = sg\<rparr> []) = Ok ()
       \<and> msgChannelUpdateAcc_Decode SigLen
           (snd (msgChannelUpdateAcc_Encode \<lparr>ChannelID = i, AccVersion = v, AccSig = sg\<rparr> []) @ rest)
           = Inr (\<lparr>ChannelID = i, AccVersion = v, AccSig = sg\<rparr>, rest)
       \<and> fst (msgChannelUpdateRej_Encode encState
                \<lparr>Reason = reason, Alt = Some st, RejActorIdx = a, RejSig = sg\<rparr> []) = Ok ()
       \<and> msgChannelUpdateRej_Decode decState SigLen
           (snd (msgChannelUpdateRej_Encode encState
                   \<lparr>Reason = reason, Alt = Some st, RejActorIdx = a, RejSig = sg\<rparr> []) @ rest)
           = Inr (\<lparr>Reason = reason, Alt = Some st, RejActorIdx = a, RejSig = sg\<rparr>, rest)"
  using roundtrips_run [OF msgChannelUpdate_roundtrip [OF assms(1,2)], of a rest]
    roundtrips_run [OF msgChannelUpdateAcc_roundtrip [OF assms(2)], of i v rest]
    roundtrips_run [OF msgChannelUpdateRej_roundtrip [OF assms], of a rest]
  by simp

theorem update_messages_roundtrip_witness:
  "msgChannelUpdate_Decode sampleDecState 65
      (snd (msgChannelUpdate_Encode sampleEncState
         \<lparr>UpState = Some (sampleState 1 90 110 False), ActorIdx = 0, UpSig = replicate 65 1\<rparr> []))
     = Inr (\<lparr>UpState = Some (sampleState 1 90 110 False), ActorIdx = 0, UpSig = replicate 65 1\<rparr>, [])
   \<and> msgChannelUpdateAcc_Decode 65
      (snd (msgChannelUpdateAcc_Encode \<lparr>ChannelID = 7, AccVersion = 1, AccSig = replicate 65 1\<rparr> []))
     = Inr (\<lparr>ChannelID = 7, AccVersion = 1, AccSig = replicate 65 1\<rparr>, [])
   \<and> msgChannelUpdateRej_Decode sampleDecState 65
      (snd (msgChannelUpdateRej_Encode sampleEncState
         \<lparr>Reason = ''too large'', Alt = Some (sampleState 1 90 110 False), RejActorIdx = 0,
          RejSig = replicate 65 1\<rparr> []))
     = Inr (\<lparr>Reason = ''too large'', Alt = Some (sampleState 1 90 110 False), RejActorIdx = 0,
             RejSig = replicate 65 1\<rparr>, [])"
proof -
  have st: "roundtrips sampleEncState sampleDecState (sampleState 1 90 110 False)"
    by (rule roundtrips_sampleState) simp_all
  have sg: "length (replicate 65 (1::byte)) = 65" by simp
  have reason: "length ''too large'' < 65536" by simp
  show ?thesis
    using update_messages_roundtrip [OF st sg reason, of 0 "[]" 7 1] by simp
qed

end
